theory Spec2Isabelle
  imports Main
begin

section \<open>Strings of the host language\<close>

text \<open>
  A Python \<open>str\<close> is modelled as a \<open>string\<close>: a list of characters, each read as
  one code point in the range U+0000 .. U+00FF. The character classes below are the ones
  the source uses: the ASCII classes of its regular expressions, and \<open>str.isalpha\<close>,
  \<open>str.isdigit\<close> and the white space of \<open>str.strip\<close> on that range.
\<close>

definition code_point :: "char \<Rightarrow> nat" where
  "code_point c = of_char c"

definition ascii_letter :: "char \<Rightarrow> bool" where
  "ascii_letter c =
     ((65 \<le> code_point c \<and> code_point c \<le> 90) \<or> (97 \<le> code_point c \<and> code_point c \<le> 122))"

definition ascii_digit :: "char \<Rightarrow> bool" where
  "ascii_digit c = (48 \<le> code_point c \<and> code_point c \<le> 57)"

text \<open>The class \<open>[a-zA-Z_]\<close> that starts an identifier of the V2 patterns.\<close>

definition ident_start :: "char \<Rightarrow> bool" where
  "ident_start c = (ascii_letter c \<or> c = CHR ''_'')"

text \<open>The class \<open>[a-zA-Z0-9_]\<close>.\<close>

definition ident_char :: "char \<Rightarrow> bool" where
  "ident_char c = (ascii_letter c \<or> ascii_digit c \<or> c = CHR ''_'')"

text \<open>
  \<open>c.isalpha()\<close>: the ASCII letters and the letters of the Latin-1 supplement
  (U+00AA, U+00B5, U+00BA, U+00C0..U+00D6, U+00D8..U+00F6, U+00F8..U+00FF).
\<close>

definition py_isalpha :: "char \<Rightarrow> bool" where
  "py_isalpha c =
     (ascii_letter c \<or> code_point c = 170 \<or> code_point c = 181 \<or> code_point c = 186
      \<or> (192 \<le> code_point c \<and> code_point c \<le> 214)
      \<or> (216 \<le> code_point c \<and> code_point c \<le> 246)
      \<or> (248 \<le> code_point c \<and> code_point c \<le> 255))"

text \<open>\<open>c.isdigit()\<close>: the ASCII digits and the superscript digits U+00B2, U+00B3, U+00B9.\<close>

definition py_isdigit :: "char \<Rightarrow> bool" where
  "py_isdigit c =
     (ascii_digit c \<or> code_point c = 178 \<or> code_point c = 179 \<or> code_point c = 185)"

text \<open>
  White space as \<open>str.strip()\<close> removes it: U+0009..U+000D, U+001C..U+0020, U+0085, U+00A0.
\<close>

definition py_isspace :: "char \<Rightarrow> bool" where
  "py_isspace c =
     ((9 \<le> code_point c \<and> code_point c \<le> 13) \<or> (28 \<le> code_point c \<and> code_point c \<le> 32)
      \<or> code_point c = 133 \<or> code_point c = 160)"

definition newline :: char where
  "newline = CHR 0x0A"

definition py_strip :: "string \<Rightarrow> string" where
  "py_strip s = rev (dropWhile py_isspace (rev (dropWhile py_isspace s)))"

text \<open>
  The anchor \<open>$\<close> of \<open>re\<close> (no flags) matches at the end of the string and also just
  before a line feed that is the last character of the string.
\<close>

definition at_dollar :: "string \<Rightarrow> bool" where
  "at_dollar rest = (rest = [] \<or> rest = [newline])"

section \<open>Values, errors and the host's primitives\<close>

text \<open>
  The values a variable holds: \<open>None\<close>, an \<open>int\<close> (unbounded), a \<open>float\<close> or a
  \<open>str\<close>. The type \<open>'f\<close> of 64-bit floats is a parameter: the source never computes
  with floats itself, it hands strings to \<open>eval\<close> and \<open>float\<close> and prints floats with
  \<open>str\<close>.
\<close>

datatype 'f pyvalue = PNone | PInt int | PFloat 'f | PStr string

text \<open>
  The exceptions the source raises, one constructor per message template; \<open>str(e)\<close> of
  an exception is the exception itself.
  \<^item> \<open>SolutionNotFound s\<close>: \<open>Solution 's' not found\<close>
  \<^item> \<open>VariableNotFound v s\<close>: \<open>Variable 'v' not found in solution 's'\<close>
  \<^item> \<open>NotNumeric r\<close>: \<open>Variable 'r' is not numeric: ...\<close>
  \<^item> \<open>HostError m\<close>: whatever \<open>eval\<close> or \<open>float\<close> raised, with its message
  \<^item> \<open>ErrorEvaluatingFormula f e\<close>: \<open>Error evaluating formula 'f': str(e)\<close>
  \<^item> \<open>InvalidAlias a\<close>: \<open>Invalid alias 'a': cannot contain @ or . symbols\<close>
  \<^item> \<open>InvalidExpression x\<close>: \<open>Invalid expression: x\<close>
  \<^item> \<open>CannotAssign s\<close>: \<open>Cannot assign to variable in different solution: s\<close>
  \<^item> \<open>AliasTargetNotFound v\<close>: \<open>Variable 'v' not found\<close>
  \<^item> \<open>CannotExecute\<close>: \<open>Cannot execute expression type: ...\<close>
  \<^item> \<open>KeyError k\<close>: a dictionary subscript with a missing key
\<close>

datatype error =
    SolutionNotFound string
  | VariableNotFound string string
  | NotNumeric string
  | HostError string
  | ErrorEvaluatingFormula string error
  | InvalidAlias string
  | InvalidExpression string
  | CannotAssign string
  | AliasTargetNotFound string
  | CannotExecute
  | KeyError string

text \<open>The callables of the function tables, and what a name of an \<open>eval\<close> context is bound to.\<close>

datatype pyfunc =
    Math_sqrt | Math_sin | Math_cos | Math_tan | Builtin_abs | Builtin_max | Builtin_min
  | Builtin_pow | Math_exp | Math_log | Math_log10 | Math_ceil | Math_floor | Builtin_round

datatype binding = EmptyDict | Callable pyfunc

type_synonym ('k, 'v) dict = "('k \<times> 'v) list"

text \<open>
  A dictionary keeps its keys in insertion order; a store to an existing key keeps the
  key's place.
\<close>

fun dict_set :: "('k, 'v) dict \<Rightarrow> 'k \<Rightarrow> 'v \<Rightarrow> ('k, 'v) dict" where
  "dict_set [] k v = [(k, v)]"
| "dict_set ((k', v') # d) k v = (if k' = k then (k, v) # d else (k', v') # dict_set d k v)"

definition dict_has :: "('k, 'v) dict \<Rightarrow> 'k \<Rightarrow> bool" where
  "dict_has d k = (map_of d k \<noteq> None)"

text \<open>
  What the source takes from the host language and its library, as a parameter of the
  model:
  \<^item> \<open>eval_float ctx s\<close> is \<open>float(eval(s, ctx))\<close>: the float, or the message of the
    exception either call raised;
  \<^item> \<open>float_of_string s\<close> is \<open>float(s)\<close> for a string (\<open>None\<close>: ValueError);
  \<^item> \<open>str_of_float x\<close> is \<open>str(x)\<close> for a float;
  \<^item> \<open>float_zero\<close> is the literal \<open>0.0\<close>.
\<close>

record 'f host =
  eval_float :: "(string, binding) dict \<Rightarrow> string \<Rightarrow> string + 'f"
  float_of_string :: "string \<Rightarrow> 'f option"
  str_of_float :: "'f \<Rightarrow> string"
  float_zero :: "'f"

subsection \<open>Decimal integers: \<open>str(n)\<close> and \<open>int(s)\<close>\<close>

definition digit_char :: "nat \<Rightarrow> char" where
  "digit_char d = char_of (48 + d)"

definition digit_value :: "char \<Rightarrow> nat" where
  "digit_value c = code_point c - 48"

fun str_nat :: "nat \<Rightarrow> string" where
  "str_nat n = (if n < 10 then [digit_char n] else str_nat (n div 10) @ [digit_char (n mod 10)])"

declare str_nat.simps [simp del]

definition str_int :: "int \<Rightarrow> string" where
  "str_int i = (if i < 0 then CHR ''-'' # str_nat (nat (- i)) else str_nat (nat i))"

text \<open>
  \<open>int(s)\<close>: white space is stripped, a sign may follow, then decimal digits, where single
  underscores may stand between digits. \<open>None\<close> is ValueError.
\<close>

fun digits_ok :: "bool \<Rightarrow> string \<Rightarrow> bool" where
  "digits_ok after_digit [] = after_digit"
| "digits_ok after_digit (c # cs) =
     (if ascii_digit c then digits_ok True cs
      else if c = CHR ''_'' \<and> after_digit then digits_ok False cs
      else False)"

definition nat_of_digits :: "string \<Rightarrow> nat" where
  "nat_of_digits s = foldl (\<lambda>acc c. if ascii_digit c then 10 * acc + digit_value c else acc) 0 s"

definition py_int :: "string \<Rightarrow> int option" where
  "py_int s =
     (let t = py_strip s;
          neg = (t \<noteq> [] \<and> hd t = CHR ''-'');
          body = (if t \<noteq> [] \<and> (hd t = CHR ''-'' \<or> hd t = CHR ''+'') then tl t else t)
      in if digits_ok False body
         then Some (if neg then - int (nat_of_digits body) else int (nat_of_digits body))
         else None)"

definition py_str :: "'f host \<Rightarrow> 'f pyvalue \<Rightarrow> string" where
  "py_str h v =
     (case v of
        PNone \<Rightarrow> ''None''
      | PInt i \<Rightarrow> str_int i
      | PFloat x \<Rightarrow> str_of_float h x
      | PStr s \<Rightarrow> s)"

text \<open>\<open>isinstance(value, (int, float))\<close>\<close>

definition is_number :: "'f pyvalue \<Rightarrow> bool" where
  "is_number v = (case v of PInt i \<Rightarrow> True | PFloat x \<Rightarrow> True | PNone \<Rightarrow> False | PStr s \<Rightarrow> False)"

section \<open>The V2 expression parser\<close>

text \<open>
  The patterns of \<open>variable_system_v2.ExpressionParser\<close>. An identifier
  \<open>[a-zA-Z_][a-zA-Z0-9_]*\<close> is always followed by a character outside its class
  (\<open>@\<close>, \<open>=\<close>, \<open>.\<close>) or by \<open>$\<close>, so the greedy match is the only one.
  \<open>match_ident\<close> returns the identifier at the head of the string and the rest.
\<close>

definition match_ident :: "string \<Rightarrow> (string \<times> string) option" where
  "match_ident s =
     (case s of
        [] \<Rightarrow> None
      | c # cs \<Rightarrow>
          if ident_start c then Some (c # takeWhile ident_char cs, dropWhile ident_char cs)
          else None)"

text \<open>
  \<open>(.+)$\<close>: a non-empty run of characters other than the line feed, up to where \<open>$\<close>
  matches; the group is the run.
\<close>

definition match_rest :: "string \<Rightarrow> string option" where
  "match_rest s =
     (let body = takeWhile (\<lambda>c. c \<noteq> newline) s;
          rest = dropWhile (\<lambda>c. c \<noteq> newline) s
      in if body \<noteq> [] \<and> at_dollar rest then Some body else None)"

text \<open>\<open>re.match(ASSIGNMENT_PATTERN, s)\<close>: the groups variable, solution, value expression.\<close>

definition match_assignment :: "string \<Rightarrow> (string \<times> string \<times> string) option" where
  "match_assignment s =
     (case match_ident s of
        None \<Rightarrow> None
      | Some (variable, r1) \<Rightarrow>
          (case r1 of
             [] \<Rightarrow> None
           | c1 # r2 \<Rightarrow>
               if c1 = CHR ''@'' then
                 (case match_ident r2 of
                    None \<Rightarrow> None
                  | Some (solution, r3) \<Rightarrow>
                      (case r3 of
                         [] \<Rightarrow> None
                       | c2 # r4 \<Rightarrow>
                           if c2 = CHR ''='' then
                             (case match_rest r4 of
                                None \<Rightarrow> None
                              | Some value_expr \<Rightarrow> Some (variable, solution, value_expr))
                           else None))
               else None))"

text \<open>\<open>VARIABLE_REF_PATTERN\<close> at the head of the string: variable, solution and the rest.\<close>

definition match_ref :: "string \<Rightarrow> (string \<times> string \<times> string) option" where
  "match_ref s =
     (case match_ident s of
        None \<Rightarrow> None
      | Some (variable, r1) \<Rightarrow>
          (case r1 of
             [] \<Rightarrow> None
           | c1 # r2 \<Rightarrow>
               if c1 = CHR ''.'' then
                 (case match_ident r2 of
                    None \<Rightarrow> None
                  | Some (solution, r3) \<Rightarrow> Some (variable, solution, r3))
               else None))"

text \<open>\<open>re.match(READ_PATTERN, s)\<close>: target, source variable, source solution.\<close>

definition match_read :: "string \<Rightarrow> (string \<times> string \<times> string) option" where
  "match_read s =
     (case match_ident s of
        None \<Rightarrow> None
      | Some (target, r1) \<Rightarrow>
          (case r1 of
             [] \<Rightarrow> None
           | c1 # r2 \<Rightarrow>
               if c1 = CHR ''='' then
                 (case match_ref r2 of
                    None \<Rightarrow> None
                  | Some (variable, solution, r3) \<Rightarrow>
                      if at_dollar r3 then Some (target, variable, solution) else None)
               else None))"

text \<open>\<open>re.match(ALIAS_PATTERN, s)\<close>: alias and value expression.\<close>

definition match_alias :: "string \<Rightarrow> (string \<times> string) option" where
  "match_alias s =
     (case match_ident s of
        None \<Rightarrow> None
      | Some (alias, r1) \<Rightarrow>
          (case r1 of
             [] \<Rightarrow> None
           | c1 # r2 \<Rightarrow>
               if c1 = CHR ''='' then
                 (case match_rest r2 of
                    None \<Rightarrow> None
                  | Some value_expr \<Rightarrow> Some (alias, value_expr))
               else None))"

lemma match_ident_shorter:
  "match_ident s = Some (i, r) \<Longrightarrow> length r < length s"
  by (cases s) (auto simp: match_ident_def length_dropWhile_le less_Suc_eq_le split: if_splits)

lemma match_ref_shorter:
  "match_ref s = Some (v, sol, r) \<Longrightarrow> length r < length s"
  by (auto simp: match_ref_def split: option.splits list.splits if_splits
      dest!: match_ident_shorter)

text \<open>
  A scan of the string for \<open>VARIABLE_REF_PATTERN\<close>, left to right, as \<open>re.findall\<close>,
  \<open>re.search\<close> and \<open>re.sub\<close> do it: where the pattern matches, the match is taken and the
  scan goes on after it; elsewhere one character is passed over.
\<close>

datatype piece = Lit char | Ref string string

function scan_refs :: "string \<Rightarrow> piece list" where
  "scan_refs [] = []"
| "scan_refs (c # cs) =
     (case match_ref (c # cs) of
        Some (variable, solution, rest) \<Rightarrow> Ref variable solution # scan_refs rest
      | None \<Rightarrow> Lit c # scan_refs cs)"
  by pat_completeness auto
termination
  by (relation "measure length") (auto dest: match_ref_shorter)

definition findall_refs :: "string \<Rightarrow> (string \<times> string) list" where
  "findall_refs s = concat (map (\<lambda>p. case p of Lit c \<Rightarrow> [] | Ref v sol \<Rightarrow> [(v, sol)]) (scan_refs s))"

text \<open>
  A \<open>Set[str]\<close> is a list without duplicates; where the source iterates over a set, the
  model takes the elements in the order of the list.
\<close>

definition extract_variable_references :: "string \<Rightarrow> string list" where
  "extract_variable_references formula =
     remdups (map (\<lambda>(variable, solution). variable @ ''.'' @ solution) (findall_refs formula))"

definition contains_variable_references :: "string \<Rightarrow> bool" where
  "contains_variable_references expression = (findall_refs expression \<noteq> [])"

definition parse_value :: "'f host \<Rightarrow> string \<Rightarrow> 'f pyvalue" where
  "parse_value h value_str =
     (let s = py_strip value_str
      in case py_int s of
           Some i \<Rightarrow> PInt i
         | None \<Rightarrow> (case float_of_string h s of Some x \<Rightarrow> PFloat x | None \<Rightarrow> PStr s))"

definition is_valid_alias :: "string \<Rightarrow> bool" where
  "is_valid_alias alias = (CHR ''@'' \<notin> set alias \<and> CHR ''.'' \<notin> set alias)"

text \<open>The typed statements: \<open>ExpressionType\<close> with the fields of the parser's dictionary.\<close>

datatype 'f statement =
    ASSIGNMENT string string "'f pyvalue"
  | FORMULA string string string "string list"
  | READ string string string
  | ALIAS string "'f pyvalue"

definition parse_expression :: "'f host \<Rightarrow> string \<Rightarrow> error + 'f statement" where
  "parse_expression h expression0 =
     (let expression = py_strip expression0
      in case match_assignment expression of
           Some (variable, solution, value_expr) \<Rightarrow>
             if contains_variable_references value_expr
             then Inr (FORMULA variable solution value_expr (extract_variable_references value_expr))
             else Inr (ASSIGNMENT variable solution (parse_value h value_expr))
         | None \<Rightarrow>
             (case match_read expression of
                Some (target_var, source_var, source_solution) \<Rightarrow>
                  Inr (READ target_var source_var source_solution)
              | None \<Rightarrow>
                  (case match_alias expression of
                     Some (alias, value_expr) \<Rightarrow>
                       if \<not> is_valid_alias alias then Inl (InvalidAlias alias)
                       else Inr (ALIAS alias (parse_value h value_expr))
                   | None \<Rightarrow> Inl (InvalidExpression expression))))"

section \<open>Variables and solutions of the V2 system\<close>

text \<open>
  \<open>V2Variable\<close> and \<open>V2Solution\<close> are objects: a registry and the solution that executes
  a statement refer to the same solution, and a variable set to a formula is read through
  the registry while it is being updated. Objects therefore live in a store and are named
  by references; \<open>next_ref\<close> is the first reference not yet handed out. The field
  \<open>raw_value\<close> is the attribute \<open>_value\<close>.
\<close>

record 'f V2Variable =
  name :: string
  solution_name :: string
  raw_value :: "'f pyvalue"
  is_formula :: bool
  formula :: "string option"
  dependencies :: "string list"
  last_computed_value :: "'f option"
  computation_error :: "error option"

record V2Solution =
  sol_name :: string
  variables :: "(string, nat) dict"
  aliases :: "(string, string) dict"

record 'f world =
  var_heap :: "nat \<Rightarrow> 'f V2Variable"
  sol_heap :: "nat \<Rightarrow> V2Solution"
  next_ref :: nat

type_synonym registry = "(string, nat) dict"

definition upd_var :: "'f world \<Rightarrow> nat \<Rightarrow> ('f V2Variable \<Rightarrow> 'f V2Variable) \<Rightarrow> 'f world" where
  "upd_var w r f = w\<lparr>var_heap := (var_heap w)(r := f (var_heap w r))\<rparr>"

definition upd_sol :: "'f world \<Rightarrow> nat \<Rightarrow> (V2Solution \<Rightarrow> V2Solution) \<Rightarrow> 'f world" where
  "upd_sol w r f = w\<lparr>sol_heap := (sol_heap w)(r := f (sol_heap w r))\<rparr>"

text \<open>\<open>V2Variable.__init__\<close>\<close>

definition new_V2Variable :: "string \<Rightarrow> 'f pyvalue \<Rightarrow> string \<Rightarrow> 'f V2Variable" where
  "new_V2Variable nm v sol =
     \<lparr>name = nm, solution_name = sol, raw_value = v, is_formula = False, formula = None,
      dependencies = [], last_computed_value = None, computation_error = None\<rparr>"

definition alloc_var :: "'f world \<Rightarrow> 'f V2Variable \<Rightarrow> nat \<times> 'f world" where
  "alloc_var w v = (next_ref w, w\<lparr>var_heap := (var_heap w)(next_ref w := v), next_ref := Suc (next_ref w)\<rparr>)"

text \<open>\<open>V2Solution.__init__\<close>\<close>

definition new_V2Solution :: "'f world \<Rightarrow> string \<Rightarrow> nat \<times> 'f world" where
  "new_V2Solution w nm =
     (next_ref w,
      w\<lparr>sol_heap := (sol_heap w)(next_ref w := \<lparr>sol_name = nm, variables = [], aliases = []\<rparr>),
        next_ref := Suc (next_ref w)\<rparr>)"

text \<open>The property \<open>read_id\<close> and \<open>full_id\<close> of a variable.\<close>

definition read_id :: "'f V2Variable \<Rightarrow> string" where
  "read_id v = name v @ ''.'' @ solution_name v"

definition full_id :: "'f V2Variable \<Rightarrow> string" where
  "full_id v = name v @ ''@'' @ solution_name v"

text \<open>The setter of the property \<open>value\<close>.\<close>

definition set_value :: "'f V2Variable \<Rightarrow> 'f pyvalue \<Rightarrow> 'f V2Variable" where
  "set_value v new_value =
     v\<lparr>raw_value := new_value, is_formula := False, formula := None, dependencies := [],
       computation_error := None\<rparr>"

text \<open>
  \<open>get_computed_value()\<close> called without a registry: the literal of a variable that is
  no formula, else the cached value, or \<open>0.0\<close> when there is none. It changes nothing.
\<close>

definition computed_value_cached :: "'f host \<Rightarrow> 'f V2Variable \<Rightarrow> 'f pyvalue" where
  "computed_value_cached h v =
     (if \<not> is_formula v then raw_value v
      else (case last_computed_value v of Some x \<Rightarrow> PFloat x | None \<Rightarrow> PFloat (float_zero h)))"

text \<open>The getter of the property \<open>value\<close>.\<close>

definition value_property :: "'f host \<Rightarrow> 'f V2Variable \<Rightarrow> 'f pyvalue" where
  "value_property h v = (if is_formula v then computed_value_cached h v else raw_value v)"

text \<open>\<open>V2Solution.create_variable\<close>: a new variable object replaces any of that name.\<close>

definition create_variable :: "'f world \<Rightarrow> nat \<Rightarrow> string \<Rightarrow> 'f pyvalue \<Rightarrow> nat \<times> 'f world" where
  "create_variable w self nm v =
     (let (r, w1) = alloc_var w (new_V2Variable nm v (sol_name (sol_heap w self)))
      in (r, upd_sol w1 self (\<lambda>s. s\<lparr>variables := dict_set (variables s) nm r\<rparr>)))"

definition get_variable :: "V2Solution \<Rightarrow> string \<Rightarrow> nat option" where
  "get_variable s name_or_alias =
     (if dict_has (variables s) name_or_alias then map_of (variables s) name_or_alias
      else if dict_has (aliases s) name_or_alias then
        (case map_of (aliases s) name_or_alias of
           Some real_name \<Rightarrow> map_of (variables s) real_name
         | None \<Rightarrow> None)
      else None)"

text \<open>
  Operations that may raise return the exception, if any, with the store as it is when
  they return or raise.
\<close>

definition set_alias :: "'f world \<Rightarrow> nat \<Rightarrow> string \<Rightarrow> string \<Rightarrow> error option \<times> 'f world" where
  "set_alias w self alias variable_name =
     (if \<not> is_valid_alias alias then (Some (InvalidAlias alias), w)
      else if \<not> dict_has (variables (sol_heap w self)) variable_name
      then (Some (AliasTargetNotFound variable_name), w)
      else (None, upd_sol w self (\<lambda>s. s\<lparr>aliases := dict_set (aliases s) alias variable_name\<rparr>)))"

section \<open>The V2 formula evaluator\<close>

definition FUNCTIONS :: "(string, binding) dict" where
  "FUNCTIONS =
     [(''sin'', Callable Math_sin), (''cos'', Callable Math_cos), (''tan'', Callable Math_tan),
      (''sqrt'', Callable Math_sqrt), (''abs'', Callable Builtin_abs),
      (''min'', Callable Builtin_min), (''max'', Callable Builtin_max),
      (''round'', Callable Builtin_round)]"

text \<open>The context of \<open>eval\<close>: \<open>{"__builtins__": {}, **FUNCTIONS}\<close>.\<close>

definition safe_dict :: "(string, binding) dict" where
  "safe_dict = (''__builtins__'', EmptyDict) # FUNCTIONS"

text \<open>\<open>s.replace('^', '**')\<close>\<close>

definition replace_caret :: "string \<Rightarrow> string" where
  "replace_caret s = concat (map (\<lambda>c. if c = CHR ''^'' then ''**'' else [c]) s)"

text \<open>The callback of \<open>re.sub\<close> in \<open>_resolve_variable_references\<close>.\<close>

definition replace_reference ::
  "'f host \<Rightarrow> 'f world \<Rightarrow> registry \<Rightarrow> string \<Rightarrow> string \<Rightarrow> error + string" where
  "replace_reference h w solution_registry variable_name sol =
     (case map_of solution_registry sol of
        None \<Rightarrow> Inl (SolutionNotFound sol)
      | Some sref \<Rightarrow>
          (case get_variable (sol_heap w sref) variable_name of
             None \<Rightarrow> Inl (VariableNotFound variable_name sol)
           | Some vref \<Rightarrow>
               (let variable = var_heap w vref;
                    v = (if is_formula variable then computed_value_cached h variable
                         else value_property h variable)
                in if \<not> is_number v then Inl (NotNumeric (variable_name @ ''.'' @ sol))
                   else Inr (py_str h v))))"

text \<open>
  \<open>re.sub\<close> with a callback: the matches are replaced from left to right, and the first
  exception of the callback ends the substitution.
\<close>

fun sub_refs :: "(string \<Rightarrow> string \<Rightarrow> error + string) \<Rightarrow> piece list \<Rightarrow> error + string" where
  "sub_refs repl [] = Inr []"
| "sub_refs repl (Lit c # ps) =
     (case sub_refs repl ps of Inl e \<Rightarrow> Inl e | Inr s \<Rightarrow> Inr (c # s))"
| "sub_refs repl (Ref v sol # ps) =
     (case repl v sol of
        Inl e \<Rightarrow> Inl e
      | Inr t \<Rightarrow> (case sub_refs repl ps of Inl e \<Rightarrow> Inl e | Inr s \<Rightarrow> Inr (t @ s)))"

definition resolve_variable_references ::
  "'f host \<Rightarrow> 'f world \<Rightarrow> registry \<Rightarrow> string \<Rightarrow> error + string" where
  "resolve_variable_references h w solution_registry f =
     sub_refs (replace_reference h w solution_registry) (scan_refs f)"

definition evaluate_formula :: "'f host \<Rightarrow> 'f world \<Rightarrow> registry \<Rightarrow> string \<Rightarrow> error + 'f" where
  "evaluate_formula h w solution_registry f =
     (case resolve_variable_references h w solution_registry f of
        Inl e \<Rightarrow> Inl (ErrorEvaluatingFormula f e)
      | Inr resolved_formula \<Rightarrow>
          (case eval_float h safe_dict (replace_caret resolved_formula) of
             Inl m \<Rightarrow> Inl (ErrorEvaluatingFormula f (HostError m))
           | Inr x \<Rightarrow> Inr x))"

text \<open>
  \<open>V2Variable.set_formula\<close>, on the variable at reference \<open>self\<close>. The formula, the
  flag and the dependencies are stored first (\<open>store_formula\<close>); the evaluation then
  reads the store with the variable in that state.
\<close>

definition store_formula :: "'f V2Variable \<Rightarrow> string \<Rightarrow> 'f V2Variable" where
  "store_formula v f =
     v\<lparr>formula := Some f, is_formula := True, dependencies := extract_variable_references f\<rparr>"

definition set_formula :: "'f host \<Rightarrow> 'f world \<Rightarrow> nat \<Rightarrow> string \<Rightarrow> registry \<Rightarrow> 'f world" where
  "set_formula h w self f solution_registry =
     (let w1 = upd_var w self (\<lambda>v. store_formula v f)
      in case evaluate_formula h w1 solution_registry f of
           Inr x \<Rightarrow> upd_var w1 self (\<lambda>v. v\<lparr>last_computed_value := Some x, computation_error := None\<rparr>)
         | Inl e \<Rightarrow>
             upd_var w1 self
               (\<lambda>v. v\<lparr>computation_error := Some e, last_computed_value := Some (float_zero h)\<rparr>))"

text \<open>
  \<open>V2Variable.get_computed_value\<close>, with the optional registry. A formula variable
  whose \<open>formula\<close> is \<open>None\<close> fails inside \<open>evaluate_formula\<close> (the pattern scan of \<open>None\<close>
  raises), which is caught like every other failure.
\<close>

definition get_computed_value ::
  "'f host \<Rightarrow> 'f world \<Rightarrow> nat \<Rightarrow> registry option \<Rightarrow> 'f pyvalue \<times> 'f world" where
  "get_computed_value h w self reg =
     (let v = var_heap w self
      in if \<not> is_formula v then (raw_value v, w)
         else (case reg of
                 None \<Rightarrow> (computed_value_cached h v, w)
               | Some solution_registry \<Rightarrow>
                   (case (case formula v of
                            None \<Rightarrow> Inl (ErrorEvaluatingFormula ''None'' (HostError ''TypeError''))
                          | Some f \<Rightarrow> evaluate_formula h w solution_registry f) of
                      Inr computed \<Rightarrow>
                        (PFloat computed,
                         upd_var w self
                           (\<lambda>v. v\<lparr>last_computed_value := Some computed, computation_error := None\<rparr>))
                    | Inl e \<Rightarrow>
                        (computed_value_cached h v,
                         upd_var w self (\<lambda>v. v\<lparr>computation_error := Some e\<rparr>)))))"

section \<open>Executing a statement in a V2 solution\<close>

text \<open>
  \<open>V2Solution.execute_expression\<close>, on the solution at reference \<open>self\<close>. A subscript
  \<open>self.variables[var_name]\<close> raises \<open>KeyError\<close> on a missing key.
\<close>

definition execute_expression ::
  "'f host \<Rightarrow> 'f world \<Rightarrow> nat \<Rightarrow> string \<Rightarrow> registry \<Rightarrow> error option \<times> 'f world" where
  "execute_expression h w self expression solution_registry =
     (case parse_expression h expression of
        Inl e \<Rightarrow> (Some e, w)
      | Inr (ASSIGNMENT var_name sol v) \<Rightarrow>
          if sol \<noteq> sol_name (sol_heap w self) then (Some (CannotAssign sol), w)
          else
            (let w1 = (if \<not> dict_has (variables (sol_heap w self)) var_name
                       then snd (create_variable w self var_name PNone) else w)
             in case map_of (variables (sol_heap w1 self)) var_name of
                  None \<Rightarrow> (Some (KeyError var_name), w1)
                | Some r \<Rightarrow> (None, upd_var w1 r (\<lambda>x. set_value x v)))
      | Inr (FORMULA var_name sol f deps) \<Rightarrow>
          if sol \<noteq> sol_name (sol_heap w self) then (Some (CannotAssign sol), w)
          else
            (let w1 = (if \<not> dict_has (variables (sol_heap w self)) var_name
                       then snd (create_variable w self var_name PNone) else w)
             in case map_of (variables (sol_heap w1 self)) var_name of
                  None \<Rightarrow> (Some (KeyError var_name), w1)
                | Some r \<Rightarrow> (None, set_formula h w1 r f solution_registry))
      | Inr (ALIAS alias v) \<Rightarrow>
          if \<not> dict_has (variables (sol_heap w self)) alias \<and> \<not> dict_has (aliases (sol_heap w self)) alias
          then
            (let (r, w1) = create_variable w self (''_alias_'' @ alias) PNone;
                 w2 = upd_var w1 r (\<lambda>x. set_value x v)
             in set_alias w2 self alias (name (var_heap w2 r)))
          else
            (case get_variable (sol_heap w self) alias of
               Some r \<Rightarrow> (None, upd_var w r (\<lambda>x. set_value x v))
             | None \<Rightarrow> (None, w))
      | Inr (READ target_var source_var source_solution) \<Rightarrow> (Some CannotExecute, w))"

section \<open>The hybrid system: legacy ids, the solution manager and the dependency tracker\<close>

datatype VariableType = CONTROLLABLE | CALCULATED | AUXILIARY | REFERENCE

text \<open>
  \<open>HybridVariable\<close>: the fields \<open>name\<close>, \<open>solution_name\<close> and \<open>aliases\<close> carry the prefix
  \<open>hv_\<close> here. Each hybrid variable owns a \<open>V2Variable\<close> of its own (\<open>v2_variable\<close>, a
  reference into the store), made by its constructor.
\<close>

record HybridVariable =
  hv_name :: string
  hv_solution_name :: string
  variable_id :: int
  var_type :: VariableType
  hv_aliases :: "string list"
  v2_variable :: nat

definition legacy_id :: "HybridVariable \<Rightarrow> string" where
  "legacy_id v = ''#'' @ str_int (variable_id v)"

definition legacy_full_id :: "HybridVariable \<Rightarrow> string" where
  "legacy_full_id v = ''#'' @ str_int (variable_id v) @ ''.'' @ hv_name v"

definition new_write_id :: "HybridVariable \<Rightarrow> string" where
  "new_write_id v = hv_name v @ ''@'' @ hv_solution_name v"

definition new_read_id :: "HybridVariable \<Rightarrow> string" where
  "new_read_id v = hv_name v @ ''.'' @ hv_solution_name v"

text \<open>
  \<open>HybridSolution\<close>, with the fields the variable engine uses (\<open>name\<close> and \<open>variables\<close>
  carry the prefix \<open>hs_\<close>).
\<close>

record HybridSolution =
  hs_name :: string
  v2_solution :: nat
  hs_variables :: "(string, HybridVariable) dict"
  next_variable_id :: int

record V2DependencyTracker =
  dependency_graph :: "(string, string list) dict"
  reverse_dependencies :: "(string, string list) dict"

text \<open>
  The state of the module: the store of V2 objects, the registry
  \<open>v2_solution_manager.v2_solutions\<close> and the global \<open>v2_dependency_tracker\<close>.
\<close>

record 'f system =
  store :: "'f world"
  v2_solutions :: registry
  tracker :: V2DependencyTracker

text \<open>\<open>set.add\<close> on a set kept as a list.\<close>

definition set_add :: "'a list \<Rightarrow> 'a \<Rightarrow> 'a list" where
  "set_add xs x = (if x \<in> set xs then xs else xs @ [x])"

definition add_dependency :: "V2DependencyTracker \<Rightarrow> string \<Rightarrow> string list \<Rightarrow> V2DependencyTracker" where
  "add_dependency t var_id deps =
     t\<lparr>dependency_graph := dict_set (dependency_graph t) var_id deps,
       reverse_dependencies :=
         fold (\<lambda>dep rd. dict_set rd dep
                 (set_add (case map_of rd dep of None \<Rightarrow> [] | Some ds \<Rightarrow> ds) var_id))
           deps (reverse_dependencies t)\<rparr>"

definition get_dependencies :: "V2DependencyTracker \<Rightarrow> string \<Rightarrow> string list" where
  "get_dependencies t var_id = (case map_of (dependency_graph t) var_id of None \<Rightarrow> [] | Some ds \<Rightarrow> ds)"

definition get_dependent_variables :: "V2DependencyTracker \<Rightarrow> string \<Rightarrow> string list" where
  "get_dependent_variables t var_id =
     (case map_of (reverse_dependencies t) var_id of None \<Rightarrow> [] | Some ds \<Rightarrow> ds)"

text \<open>
  The inner function \<open>check_circular\<close> of \<open>has_circular_dependency\<close>, with the set
  \<open>visited\<close> passed through the calls and the loop over the dependencies as
  \<open>check_deps\<close>. The first argument bounds the depth of the recursion; \<open>None\<close> means the
  bound was reached.
\<close>

fun check_circular ::
    "nat \<Rightarrow> (string, string list) dict \<Rightarrow> string \<Rightarrow> string list \<Rightarrow> string list
      \<Rightarrow> (bool \<times> string list) option"
  and check_deps ::
    "nat \<Rightarrow> (string, string list) dict \<Rightarrow> string list \<Rightarrow> string list \<Rightarrow> string list
      \<Rightarrow> (bool \<times> string list) option" where
  "check_circular 0 g var_id path visited = None"
| "check_circular (Suc n) g var_id path visited =
     (if var_id \<in> set path then Some (True, visited)
      else if var_id \<in> set visited then Some (False, visited)
      else check_deps n g (case map_of g var_id of None \<Rightarrow> [] | Some ds \<Rightarrow> ds)
             (var_id # path) (var_id # visited))"
| "check_deps n g [] path visited = Some (False, visited)"
| "check_deps n g (dep # deps) path visited =
     (case check_circular n g dep path visited of
        None \<Rightarrow> None
      | Some (found, visited') \<Rightarrow>
          if found then Some (True, visited') else check_deps n g deps path visited')"

text \<open>
  \<open>has_circular_dependency(variable_id, dependencies)\<close>. The source never reads its
  parameter \<open>dependencies\<close>. A path of the search holds distinct keys of the graph and
  at most one more node, which bounds the depth.
\<close>

definition has_circular_dependency ::
  "V2DependencyTracker \<Rightarrow> string \<Rightarrow> string list \<Rightarrow> bool option" where
  "has_circular_dependency t var_id deps =
     map_option fst
       (check_circular (Suc (Suc (length (dependency_graph t)))) (dependency_graph t) var_id [] [])"

text \<open>
  \<open>HybridSolution.__init__\<close>: the V2 solution is made and registered under the name in
  the manager.
\<close>

definition new_HybridSolution :: "'f system \<Rightarrow> string \<Rightarrow> HybridSolution \<times> 'f system" where
  "new_HybridSolution g nm =
     (let (r, w1) = new_V2Solution (store g) nm
      in (\<lparr>hs_name = nm, v2_solution = r, hs_variables = [], next_variable_id = 1\<rparr>,
          g\<lparr>store := w1, v2_solutions := dict_set (v2_solutions g) nm r\<rparr>))"

text \<open>
  \<open>HybridSolution.create_variable\<close>: a V2 variable in the V2 solution, a hybrid variable
  with a V2 variable of its own and the next legacy id, then the aliases; an alias the
  V2 solution refuses is only reported.
\<close>

definition hybrid_create_variable ::
  "'f system \<Rightarrow> HybridSolution \<Rightarrow> string \<Rightarrow> 'f pyvalue \<Rightarrow> VariableType \<Rightarrow> string list
    \<Rightarrow> HybridVariable \<times> HybridSolution \<times> 'f system" where
  "hybrid_create_variable g self nm v t als =
     (let (r1, w1) = create_variable (store g) (v2_solution self) nm v;
          (r2, w2) = alloc_var w1 (new_V2Variable nm v (hs_name self));
          hybrid_var = \<lparr>hv_name = nm, hv_solution_name = hs_name self,
                        variable_id = next_variable_id self, var_type = t, hv_aliases = als,
                        v2_variable = r2\<rparr>;
          self' = self\<lparr>hs_variables := dict_set (hs_variables self) nm hybrid_var,
                       next_variable_id := next_variable_id self + 1\<rparr>;
          w3 = fold (\<lambda>alias w. snd (set_alias w (v2_solution self) alias nm)) als w2
      in (hybrid_var, self', g\<lparr>store := w3\<rparr>))"

text \<open>
  The branches of \<open>get_variable_by_reference\<close>, in the order of the source. A loop
  \<open>for var in self.variables.values()\<close> that returns the first hit is \<open>find\<close>.
\<close>

definition find_variable :: "HybridSolution \<Rightarrow> (HybridVariable \<Rightarrow> bool) \<Rightarrow> HybridVariable option" where
  "find_variable self P = find P (map snd (hs_variables self))"

definition by_legacy_number :: "HybridSolution \<Rightarrow> string \<Rightarrow> HybridVariable option" where
  "by_legacy_number self reference =
     (if reference \<noteq> [] \<and> hd reference = CHR ''#'' then
        (case py_int (tl reference) of
           Some var_id \<Rightarrow> find_variable self (\<lambda>var. variable_id var = var_id)
         | None \<Rightarrow> None)
      else None)"

definition by_legacy_full_id :: "HybridSolution \<Rightarrow> string \<Rightarrow> HybridVariable option" where
  "by_legacy_full_id self reference =
     (if CHR ''.'' \<in> set reference \<and> reference \<noteq> [] \<and> hd reference = CHR ''#'' then
        (case py_int (tl (takeWhile (\<lambda>c. c \<noteq> CHR ''.'') reference)) of
           Some var_id \<Rightarrow> find_variable self (\<lambda>var. variable_id var = var_id)
         | None \<Rightarrow> None)
      else None)"

definition by_v2_alias :: "'f world \<Rightarrow> HybridSolution \<Rightarrow> string \<Rightarrow> HybridVariable option" where
  "by_v2_alias w self reference =
     (case get_variable (sol_heap w (v2_solution self)) reference of
        Some v2_var \<Rightarrow> find_variable self (\<lambda>var. v2_variable var = v2_var)
      | None \<Rightarrow> None)"

definition by_legacy_alias :: "HybridSolution \<Rightarrow> string \<Rightarrow> HybridVariable option" where
  "by_legacy_alias self reference = find_variable self (\<lambda>var. reference \<in> set (hv_aliases var))"

definition get_variable_by_reference ::
  "'f world \<Rightarrow> HybridSolution \<Rightarrow> string \<Rightarrow> HybridVariable option" where
  "get_variable_by_reference w self reference0 =
     (let reference = py_strip reference0
      in case map_of (hs_variables self) reference of
           Some var \<Rightarrow> Some var
         | None \<Rightarrow>
             (case by_legacy_number self reference of
                Some var \<Rightarrow> Some var
              | None \<Rightarrow>
                  (case by_legacy_full_id self reference of
                     Some var \<Rightarrow> Some var
                   | None \<Rightarrow>
                       (case by_v2_alias w self reference of
                          Some var \<Rightarrow> Some var
                        | None \<Rightarrow> by_legacy_alias self reference))))"

text \<open>
  \<open>HybridSolution.execute_v2_expression\<close>. The statement is executed by the V2
  solution against the manager's registry; an exception of that call leaves the method.
  The second parse and the update of the tracker run under \<open>try\<close>, and whatever they
  raise is only reported.
\<close>

definition execute_v2_expression ::
  "'f host \<Rightarrow> 'f system \<Rightarrow> HybridSolution \<Rightarrow> string \<Rightarrow> error option \<times> 'f system" where
  "execute_v2_expression h g self expression =
     (let solution_registry = v2_solutions g;
          (err, w1) = execute_expression h (store g) (v2_solution self) expression solution_registry;
          g1 = g\<lparr>store := w1\<rparr>
      in case err of
           Some e \<Rightarrow> (Some e, g1)
         | None \<Rightarrow>
             (case parse_expression h expression of
                Inr (FORMULA var_name sol f deps) \<Rightarrow>
                  (case get_variable_by_reference w1 self var_name of
                     Some var \<Rightarrow> (None, g1\<lparr>tracker := add_dependency (tracker g1) (new_read_id var) deps\<rparr>)
                   | None \<Rightarrow> (None, g1))
              | _ \<Rightarrow> (None, g1)))"

section \<open>The first variable system: names, function table, aliases and evaluator\<close>


text \<open>
  \<open>ExpressionParser.validate_name\<close> of \<open>variable_system.py\<close>. Its last test is
  \<open>re.match(r'^[a-zA-Z0-9_]+$', name)\<close>: a greedy run of word characters, which must
  be non-empty and end where \<open>$\<close> matches.
\<close>

definition match_word_run :: "string \<Rightarrow> bool" where
  "match_word_run s = (takeWhile ident_char s \<noteq> [] \<and> at_dollar (dropWhile ident_char s))"

definition validate_name :: "string \<Rightarrow> bool" where
  "validate_name nm =
     (if nm = [] then False
      else if \<not> (py_isalpha (hd nm) \<or> py_isdigit (hd nm)) then False
      else if CHR ''@'' \<in> set nm \<or> CHR ''.'' \<in> set nm then False
      else if \<not> match_word_run nm then False
      else True)"

text \<open>
  The language of the specification's name grammar, \<open>^[A-Za-z0-9][A-Za-z0-9_]*$\<close> read
  as a set of strings: a letter or digit followed by letters, digits and underscores.
\<close>

definition name_grammar :: "string \<Rightarrow> bool" where
  "name_grammar s =
     (case s of
        [] \<Rightarrow> False
      | c # cs \<Rightarrow> (ascii_letter c \<or> ascii_digit c) \<and> list_all ident_char cs)"

text \<open>\<open>ExpressionParser.math_functions\<close> of \<open>variable_system.py\<close>.\<close>

definition math_functions :: "(string, binding) dict" where
  "math_functions =
     [(''sqrt'', Callable Math_sqrt), (''sin'', Callable Math_sin), (''cos'', Callable Math_cos),
      (''tan'', Callable Math_tan), (''abs'', Callable Builtin_abs), (''max'', Callable Builtin_max),
      (''min'', Callable Builtin_min), (''pow'', Callable Builtin_pow), (''exp'', Callable Math_exp),
      (''log'', Callable Math_log), (''log10'', Callable Math_log10),
      (''ceil'', Callable Math_ceil), (''floor'', Callable Math_floor),
      (''round'', Callable Builtin_round)]"

text \<open>The context of \<open>eval\<close> in \<open>FormulaEvaluator.evaluate_expression\<close>.\<close>

definition eval_context :: "(string, binding) dict" where
  "eval_context = (''__builtins__'', EmptyDict) # math_functions"


text \<open>
  \<open>Solution\<close> of \<open>variable_system.py\<close>, with the two dictionaries \<open>set_alias\<close> reads
  and writes; of a \<open>Variable\<close> only the value is kept. \<open>set_alias\<close> reports a failure
  by returning \<open>False\<close>.
\<close>

record 'f Solution =
  s_variables :: "(string, 'f pyvalue) dict"
  s_aliases :: "(string, string) dict"

definition solution_set_alias :: "'f Solution \<Rightarrow> string \<Rightarrow> string \<Rightarrow> bool \<times> 'f Solution" where
  "solution_set_alias s alias var_name =
     (if \<not> validate_name alias then (False, s)
      else if \<not> dict_has (s_variables s) var_name then (False, s)
      else (True, s\<lparr>s_aliases := dict_set (s_aliases s) alias var_name\<rparr>))"

subsection \<open>The formula evaluator of the first system\<close>

text \<open>
  \<open>\w\<close> of \<open>re\<close> on a \<open>str\<close> pattern: the characters for which \<open>str.isalnum\<close> holds
  (letters, digits and the other numeric characters: on the code points of the model
  the fractions U+00BC..U+00BE), and the underscore.
\<close>

definition word_char :: "char \<Rightarrow> bool" where
  "word_char c =
     (py_isalpha c \<or> py_isdigit c \<or> (188 \<le> code_point c \<and> code_point c \<le> 190)
      \<or> c = CHR ''_'')"

text \<open>
  \<open>ExpressionParser.find_read_references\<close>: the matches of \<open>(\w+)\.(\w+)\<close> from left to
  right. At a position the first group takes the whole run of word characters, which a
  point and a second, non-empty run must follow; the search goes on behind a match.
\<close>

definition match_read_reference :: "string \<Rightarrow> (string \<times> string \<times> string) option" where
  "match_read_reference s =
     (let variable_name = takeWhile word_char s; r = dropWhile word_char s
      in if variable_name = [] then None
         else (case r of
                 [] \<Rightarrow> None
               | c # r' \<Rightarrow>
                   if c = CHR ''.'' \<and> takeWhile word_char r' \<noteq> []
                   then Some (variable_name, takeWhile word_char r', dropWhile word_char r')
                   else None))"

lemma match_read_reference_shorter:
  assumes "match_read_reference s = Some (v, sol, rest)"
  shows "length rest < length s"
proof -
  from assms obtain r' where r: "dropWhile word_char s = CHR ''.'' # r'"
    and rest: "rest = dropWhile word_char r'"
    by (auto simp: match_read_reference_def Let_def split: if_splits list.splits)
  have "length (dropWhile word_char s) \<le> length s"
    by (rule length_dropWhile_le)
  moreover have "length (dropWhile word_char r') \<le> length r'"
    by (rule length_dropWhile_le)
  ultimately show ?thesis using r rest by simp
qed

function find_read_references :: "string \<Rightarrow> (string \<times> string) list" where
  "find_read_references [] = []"
| "find_read_references (c # cs) =
     (case match_read_reference (c # cs) of
        None \<Rightarrow> find_read_references cs
      | Some (variable_name, sol, rest) \<Rightarrow> (variable_name, sol) # find_read_references rest)"
  by pat_completeness auto

termination find_read_references
  by (relation "measure length") (auto dest: match_read_reference_shorter)

text \<open>
  \<open>s.replace(old, new)\<close>: the occurrences of \<open>old\<close> are replaced from left to right, the
  search going on behind an occurrence; an empty \<open>old\<close> occurs before every character and
  at the end.
\<close>

function py_replace :: "string \<Rightarrow> string \<Rightarrow> string \<Rightarrow> string" where
  "py_replace old new s =
     (if old = [] then new @ concat (map (\<lambda>c. c # new) s)
      else if s = [] then []
      else if take (length old) s = old
      then new @ py_replace old new (drop (length old) s)
      else hd s # py_replace old new (tl s))"
  by pat_completeness auto

termination py_replace
  by (relation "measure (\<lambda>(old, new, s). length s)") auto

declare py_replace.simps [simp del]

text \<open>
  The exceptions of the first system's evaluator:
  \<^item> \<open>ReferenceNotFound r\<close>: \<open>Variable r not found\<close>
  \<^item> \<open>Raised m\<close>: whatever \<open>eval\<close> or \<open>float\<close> raised, with its message
  \<^item> \<open>ErrorEvaluatingExpression x e\<close>: \<open>Error evaluating expression 'x': str(e)\<close>
  \<^item> \<open>RecursionError\<close>: the nesting of the evaluations is deeper than the host allows
\<close>

datatype error1 =
    ReferenceNotFound string
  | Raised string
  | ErrorEvaluatingExpression string error1
  | RecursionError

text \<open>
  The first system also applies \<open>float\<close> to the value of a variable that is no string;
  \<open>float_of_int i\<close> is \<open>float(i)\<close> for an \<open>int\<close>, or the message of its exception.
\<close>

record 'f host1 = "'f host" +
  float_of_int :: "int \<Rightarrow> string + 'f"

definition float_of_value :: "'f host1 \<Rightarrow> 'f pyvalue \<Rightarrow> string + 'f" where
  "float_of_value h v =
     (case v of
        PNone \<Rightarrow> Inl ''TypeError''
      | PInt i \<Rightarrow> float_of_int h i
      | PFloat x \<Rightarrow> Inr x
      | PStr s \<Rightarrow> (case float_of_string h s of None \<Rightarrow> Inl ''ValueError'' | Some x \<Rightarrow> Inr x))"

text \<open>
  The \<open>Solution\<close> objects live in a store: \<open>solution_at w r\<close> holds the dictionaries of the
  object at reference \<open>r\<close>, and \<open>evaluator_registry w r\<close> is the dictionary
  \<open>evaluator.solutions_registry\<close> of that object, from names to references.
\<close>

record 'f store1 =
  solution_at :: "nat \<Rightarrow> 'f Solution"
  evaluator_registry :: "nat \<Rightarrow> (string, nat) dict"

text \<open>
  \<open>Solution.get_variable_value\<close>. A variable whose value is a string is a formula, which
  the solution's own evaluator evaluates (\<open>ev\<close>, with the registry of that evaluator);
  every exception of that evaluation gives \<open>None\<close>. The \<open>float\<close> of another value is not
  guarded; \<open>Inl\<close> is the message of its exception.
\<close>

definition get_variable_value ::
  "((string, nat) dict \<Rightarrow> string \<Rightarrow> error1 + 'f) \<Rightarrow> 'f host1 \<Rightarrow> 'f store1 \<Rightarrow> nat \<Rightarrow> string
    \<Rightarrow> string + 'f option" where
  "get_variable_value ev h w self identifier =
     (let target = (case map_of (s_aliases (solution_at w self)) identifier of
                      Some variable_name \<Rightarrow> variable_name
                    | None \<Rightarrow> identifier)
      in case map_of (s_variables (solution_at w self)) target of
           None \<Rightarrow> Inr None
         | Some v \<Rightarrow>
             (case v of
                PStr f \<Rightarrow>
                  (case ev (evaluator_registry w self) f of
                     Inl e \<Rightarrow> Inr None
                   | Inr x \<Rightarrow> Inr (Some x))
              | _ \<Rightarrow> (case float_of_value h v of Inl m \<Rightarrow> Inl m | Inr x \<Rightarrow> Inr (Some x))))"

text \<open>\<open>FormulaEvaluator._get_variable_value\<close>, for an evaluator with the registry \<open>reg\<close>.\<close>

definition evaluator_get_variable_value ::
  "((string, nat) dict \<Rightarrow> string \<Rightarrow> error1 + 'f) \<Rightarrow> 'f host1 \<Rightarrow> 'f store1
    \<Rightarrow> (string, nat) dict \<Rightarrow> string \<Rightarrow> string \<Rightarrow> string + 'f option" where
  "evaluator_get_variable_value ev h w reg var_name sol =
     (case map_of reg sol of
        Some r \<Rightarrow> get_variable_value ev h w r var_name
      | None \<Rightarrow> Inr None)"

text \<open>
  The loop of \<open>evaluate_expression\<close> over the references found: each one is looked up and
  all its occurrences in the text so far are replaced by \<open>str\<close> of the value.
\<close>

fun substitute ::
  "(string \<Rightarrow> string \<Rightarrow> string + 'f option) \<Rightarrow> ('f \<Rightarrow> string) \<Rightarrow> (string \<times> string) list
    \<Rightarrow> string \<Rightarrow> error1 + string" where
  "substitute look str [] evaluated_expression = Inr evaluated_expression"
| "substitute look str ((var_name, sol) # refs) evaluated_expression =
     (case look var_name sol of
        Inl m \<Rightarrow> Inl (Raised m)
      | Inr None \<Rightarrow> Inl (ReferenceNotFound (var_name @ ''.'' @ sol))
      | Inr (Some x) \<Rightarrow>
          substitute look str refs
            (py_replace (var_name @ ''.'' @ sol) (str x) evaluated_expression))"

definition substitute_references ::
  "((string, nat) dict \<Rightarrow> string \<Rightarrow> error1 + 'f) \<Rightarrow> 'f host1 \<Rightarrow> 'f store1
    \<Rightarrow> (string, nat) dict \<Rightarrow> string \<Rightarrow> error1 + string" where
  "substitute_references ev h w reg expression =
     substitute (evaluator_get_variable_value ev h w reg) (str_of_float h)
       (find_read_references expression) expression"

text \<open>
  \<open>FormulaEvaluator.evaluate_expression\<close>, for an evaluator with the registry \<open>reg\<close>. The
  first argument is the depth of nested evaluations the host still allows; a formula that
  refers to a formula is evaluated one level deeper.
\<close>

definition evaluate_step ::
  "((string, nat) dict \<Rightarrow> string \<Rightarrow> error1 + 'f) \<Rightarrow> 'f host1 \<Rightarrow> 'f store1
    \<Rightarrow> (string, nat) dict \<Rightarrow> string \<Rightarrow> error1 + 'f" where
  "evaluate_step ev h w reg expression =
     (case substitute_references ev h w reg expression of
        Inl e \<Rightarrow> Inl (ErrorEvaluatingExpression expression e)
      | Inr evaluated_expression \<Rightarrow>
          (case eval_float h eval_context (replace_caret evaluated_expression) of
             Inl m \<Rightarrow> Inl (ErrorEvaluatingExpression expression (Raised m))
           | Inr x \<Rightarrow> Inr x))"

fun evaluate_expression ::
  "nat \<Rightarrow> 'f host1 \<Rightarrow> 'f store1 \<Rightarrow> (string, nat) dict \<Rightarrow> string \<Rightarrow> error1 + 'f" where
  "evaluate_expression 0 h w reg expression = Inl RecursionError"
| "evaluate_expression (Suc d) h w reg expression =
     evaluate_step (evaluate_expression d h w) h w reg expression"

section \<open>Arithmetic expressions of the host language\<close>

text \<open>
  The source hands the text of a formula to \<open>eval\<close>. For the texts of a small language of
  arithmetic expressions the meaning of \<open>eval\<close> is written out here as far as the names
  are concerned; what a literal denotes, what the operators and the functions compute, and
  what \<open>float\<close> makes of the result stay parameters. The language has decimal literals
  (\<open>12\<close>, \<open>12.5\<close>, \<open>12.\<close>), names, calls \<open>name(e, ..., e)\<close>, parentheses, the unary signs
  and the operators \<open>+\<close>, \<open>-\<close>, \<open>*\<close>, \<open>/\<close>, \<open>**\<close>, with blanks between the lexemes. Every
  other text (an attribute, a subscript, a comparison, a string, a keyword, a literal in
  another notation, another kind of white space) is outside of it.
\<close>

datatype lexeme =
    LNumber string | LName string | LPlus | LMinus | LStar | LPower | LSlash
  | LOpen | LClose | LComma

text \<open>
  The reserved words of the host language, and \<open>__debug__\<close>, which its compiler replaces
  by a constant: none of them is looked up as a name.
\<close>

definition reserved_words :: "string list" where
  "reserved_words =
     [''False'', ''None'', ''True'', ''and'', ''as'', ''assert'', ''async'', ''await'',
      ''break'', ''class'', ''continue'', ''def'', ''del'', ''elif'', ''else'', ''except'',
      ''finally'', ''for'', ''from'', ''global'', ''if'', ''import'', ''in'', ''is'',
      ''lambda'', ''nonlocal'', ''not'', ''or'', ''pass'', ''raise'', ''return'', ''try'',
      ''while'', ''with'', ''yield'', ''__debug__'']"

text \<open>
  A literal that starts with a digit: the digits, and after a point the digits of the
  fraction. An integer literal has no leading zero unless it is all zeros; literals of more
  than 4300 characters are left out (the host limits the length of integer literals).
\<close>

definition number_text :: "string \<Rightarrow> string \<times> string" where
  "number_text s =
     (let whole = takeWhile ascii_digit s; r = dropWhile ascii_digit s
      in case r of
           [] \<Rightarrow> (whole, [])
         | c # r' \<Rightarrow>
             if c = CHR ''.''
             then (whole @ CHR ''.'' # takeWhile ascii_digit r', dropWhile ascii_digit r')
             else (whole, r))"

definition number_ok :: "string \<Rightarrow> bool" where
  "number_ok t =
     (length t \<le> 4300
      \<and> (CHR ''.'' \<in> set t \<or> list_all (\<lambda>c. c = CHR ''0'') t \<or> hd t \<noteq> CHR ''0''))"

definition symbol_lexeme :: "char \<Rightarrow> lexeme option" where
  "symbol_lexeme c =
     (if c = CHR ''+'' then Some LPlus
      else if c = CHR ''-'' then Some LMinus
      else if c = CHR ''/'' then Some LSlash
      else if c = CHR ''('' then Some LOpen
      else if c = CHR '')'' then Some LClose
      else if c = CHR '','' then Some LComma
      else None)"

lemma number_text_shorter:
  assumes "ascii_digit c"
  shows "length (snd (number_text (c # cs))) < Suc (length cs)"
proof -
  define r where "r = dropWhile ascii_digit cs"
  have r: "dropWhile ascii_digit (c # cs) = r"
    using assms by (simp add: r_def)
  have a: "length r \<le> length cs"
    unfolding r_def by (rule length_dropWhile_le)
  have b: "length (dropWhile ascii_digit (tl r)) \<le> length (tl r)"
    by (rule length_dropWhile_le)
  show ?thesis
  proof (cases r)
    case Nil
    then show ?thesis unfolding number_text_def Let_def r by simp
  next
    case (Cons d r')
    then show ?thesis unfolding number_text_def Let_def r using a b by auto
  qed
qed

function tokenize :: "string \<Rightarrow> lexeme list option" where
  "tokenize [] = Some []"
| "tokenize (c # cs) =
     (if c = CHR '' '' then tokenize cs
      else if ascii_digit c then
        (if number_ok (fst (number_text (c # cs)))
         then map_option (Cons (LNumber (fst (number_text (c # cs)))))
                (tokenize (snd (number_text (c # cs))))
         else None)
      else if ident_start c then
        (if c # takeWhile ident_char cs \<in> set reserved_words then None
         else map_option (Cons (LName (c # takeWhile ident_char cs)))
                (tokenize (dropWhile ident_char cs)))
      else if c = CHR ''*'' then
        (case cs of
           [] \<Rightarrow> Some [LStar]
         | d # ds \<Rightarrow>
             if d = CHR ''*'' then map_option (Cons LPower) (tokenize ds)
             else map_option (Cons LStar) (tokenize cs))
      else (case symbol_lexeme c of
              None \<Rightarrow> None
            | Some t \<Rightarrow> map_option (Cons t) (tokenize cs)))"
  by pat_completeness auto

termination tokenize
proof (relation "measure length")
  show "wf (measure length)" by simp
next
  fix c :: char and cs
  assume "ascii_digit c"
  then show "(snd (number_text (c # cs)), c # cs) \<in> measure length"
    using number_text_shorter [of c cs] by simp
next
  fix c :: char and cs
  have "length (dropWhile ident_char cs) \<le> length cs" by (rule length_dropWhile_le)
  then show "(dropWhile ident_char cs, c # cs) \<in> measure length" by simp
qed simp_all

text \<open>The expressions, shaped like the syntax trees of the host language.\<close>

datatype unary_op = OpPos | OpNeg

datatype binary_op = OpAdd | OpSub | OpMult | OpDiv | OpPow

datatype expr =
    Literal string
  | Load string
  | CallName string "expr list"
  | Unary unary_op expr
  | Binary binary_op expr expr

text \<open>
  The grammar, with the precedences of the host language: a sum of products of factors; a
  factor is a signed factor or a power; the exponent of a power is a factor, so that
  \<open>-2**2\<close> is \<open>-(2**2)\<close> and \<open>2**3**2\<close> is \<open>2**(3**2)\<close>. The first argument bounds the
  number of steps.
\<close>

definition next_is :: "lexeme \<Rightarrow> lexeme list \<Rightarrow> bool" where
  "next_is t ts = (ts \<noteq> [] \<and> hd ts = t)"

definition leading_number :: "lexeme list \<Rightarrow> string option" where
  "leading_number ts = (case ts of LNumber t # r \<Rightarrow> Some t | _ \<Rightarrow> None)"

definition leading_name :: "lexeme list \<Rightarrow> string option" where
  "leading_name ts = (case ts of LName x # r \<Rightarrow> Some x | _ \<Rightarrow> None)"

function read_sum :: "nat \<Rightarrow> lexeme list \<Rightarrow> (expr \<times> lexeme list) option"
  and read_sum_rest :: "nat \<Rightarrow> expr \<Rightarrow> lexeme list \<Rightarrow> (expr \<times> lexeme list) option"
  and read_product :: "nat \<Rightarrow> lexeme list \<Rightarrow> (expr \<times> lexeme list) option"
  and read_product_rest :: "nat \<Rightarrow> expr \<Rightarrow> lexeme list \<Rightarrow> (expr \<times> lexeme list) option"
  and read_factor :: "nat \<Rightarrow> lexeme list \<Rightarrow> (expr \<times> lexeme list) option"
  and read_power :: "nat \<Rightarrow> lexeme list \<Rightarrow> (expr \<times> lexeme list) option"
  and read_atom :: "nat \<Rightarrow> lexeme list \<Rightarrow> (expr \<times> lexeme list) option"
  and read_arguments :: "nat \<Rightarrow> lexeme list \<Rightarrow> (expr list \<times> lexeme list) option" where
  "read_sum 0 ts = None"
| "read_sum (Suc n) ts =
     (case read_product n ts of None \<Rightarrow> None | Some (a, r) \<Rightarrow> read_sum_rest n a r)"
| "read_sum_rest 0 a ts = None"
| "read_sum_rest (Suc n) a ts =
     (if next_is LPlus ts then
        (case read_product n (tl ts) of
           None \<Rightarrow> None
         | Some (b, r) \<Rightarrow> read_sum_rest n (Binary OpAdd a b) r)
      else if next_is LMinus ts then
        (case read_product n (tl ts) of
           None \<Rightarrow> None
         | Some (b, r) \<Rightarrow> read_sum_rest n (Binary OpSub a b) r)
      else Some (a, ts))"
| "read_product 0 ts = None"
| "read_product (Suc n) ts =
     (case read_factor n ts of None \<Rightarrow> None | Some (a, r) \<Rightarrow> read_product_rest n a r)"
| "read_product_rest 0 a ts = None"
| "read_product_rest (Suc n) a ts =
     (if next_is LStar ts then
        (case read_factor n (tl ts) of
           None \<Rightarrow> None
         | Some (b, r) \<Rightarrow> read_product_rest n (Binary OpMult a b) r)
      else if next_is LSlash ts then
        (case read_factor n (tl ts) of
           None \<Rightarrow> None
         | Some (b, r) \<Rightarrow> read_product_rest n (Binary OpDiv a b) r)
      else Some (a, ts))"
| "read_factor 0 ts = None"
| "read_factor (Suc n) ts =
     (if next_is LPlus ts then
        (case read_factor n (tl ts) of None \<Rightarrow> None | Some (a, r) \<Rightarrow> Some (Unary OpPos a, r))
      else if next_is LMinus ts then
        (case read_factor n (tl ts) of None \<Rightarrow> None | Some (a, r) \<Rightarrow> Some (Unary OpNeg a, r))
      else read_power n ts)"
| "read_power 0 ts = None"
| "read_power (Suc n) ts =
     (case read_atom n ts of
        None \<Rightarrow> None
      | Some (a, r) \<Rightarrow>
          if next_is LPower r then
            (case read_factor n (tl r) of
               None \<Rightarrow> None
             | Some (b, r') \<Rightarrow> Some (Binary OpPow a b, r'))
          else Some (a, r))"
| "read_atom 0 ts = None"
| "read_atom (Suc n) ts =
     (case leading_number ts of
        Some t \<Rightarrow> Some (Literal t, tl ts)
      | None \<Rightarrow>
          (case leading_name ts of
             Some x \<Rightarrow>
               if next_is LOpen (tl ts) then
                 (if next_is LClose (tl (tl ts)) then Some (CallName x [], tl (tl (tl ts)))
                  else (case read_arguments n (tl (tl ts)) of
                          None \<Rightarrow> None
                        | Some (args, r) \<Rightarrow>
                            if next_is LClose r then Some (CallName x args, tl r) else None))
               else Some (Load x, tl ts)
           | None \<Rightarrow>
               if next_is LOpen ts then
                 (case read_sum n (tl ts) of
                    None \<Rightarrow> None
                  | Some (a, r) \<Rightarrow> if next_is LClose r then Some (a, tl r) else None)
               else None))"
| "read_arguments 0 ts = None"
| "read_arguments (Suc n) ts =
     (case read_sum n ts of
        None \<Rightarrow> None
      | Some (a, r) \<Rightarrow>
          if next_is LComma r then
            (case read_arguments n (tl r) of
               None \<Rightarrow> None
             | Some (args, r') \<Rightarrow> Some (a # args, r'))
          else Some ([a], r))"
  by pat_completeness auto

termination read_sum
  by size_change

definition parse_arithmetic :: "string \<Rightarrow> expr option" where
  "parse_arithmetic s =
     (case tokenize s of
        None \<Rightarrow> None
      | Some ts \<Rightarrow>
          (case read_sum 200 ts of
             None \<Rightarrow> None
           | Some (a, r) \<Rightarrow> if r = [] then Some a else None))"

text \<open>
  The objects an expression can denote: a number, of a type \<open>'v\<close> that is a parameter, or
  what a name of the context is bound to. The host's part in the evaluation:
  \<^item> \<open>literal_value t\<close>: the number a literal denotes;
  \<^item> \<open>unary_operation\<close>, \<open>binary_operation\<close>: the operators, with the message of the
    exception they raise;
  \<^item> \<open>call_object b args\<close>: the call of what a name is bound to;
  \<^item> \<open>float_of x\<close>: \<open>float(x)\<close>.
\<close>

datatype 'v object = Numeric 'v | Object binding

record ('v, 'f) python =
  literal_value :: "string \<Rightarrow> 'v"
  unary_operation :: "unary_op \<Rightarrow> 'v object \<Rightarrow> string + 'v object"
  binary_operation :: "binary_op \<Rightarrow> 'v object \<Rightarrow> 'v object \<Rightarrow> string + 'v object"
  call_object :: "binding \<Rightarrow> 'v object list \<Rightarrow> string + 'v object"
  float_of :: "'v object \<Rightarrow> string + 'f"

text \<open>The message of \<open>NameError\<close>: \<open>name 'n' is not defined\<close>.\<close>

definition name_error :: "string \<Rightarrow> string" where
  "name_error n = ''name '' @ CHR 0x27 # n @ CHR 0x27 # '' is not defined''"

text \<open>The results of a list of evaluations in their order, up to the first exception.\<close>

fun first_error :: "(string + 'a) list \<Rightarrow> string + 'a list" where
  "first_error [] = Inr []"
| "first_error (Inl m # rs) = Inl m"
| "first_error (Inr x # rs) =
     (case first_error rs of Inl m \<Rightarrow> Inl m | Inr xs \<Rightarrow> Inr (x # xs))"

text \<open>
  The evaluation of an expression in a context. A name is looked up in the context, which
  is both the globals and the locals of the source's \<open>eval\<close>, and then in the built-ins,
  which the context makes empty: a name the context does not bind raises \<open>NameError\<close>. The
  operands are evaluated from left to right; a call looks up its name first.
\<close>

fun evaluate ::
  "('v, 'f) python \<Rightarrow> (string, binding) dict \<Rightarrow> expr \<Rightarrow> string + 'v object" where
  "evaluate p ctx (Literal t) = Inr (Numeric (literal_value p t))"
| "evaluate p ctx (Load n) =
     (case map_of ctx n of None \<Rightarrow> Inl (name_error n) | Some b \<Rightarrow> Inr (Object b))"
| "evaluate p ctx (CallName n args) =
     (case map_of ctx n of
        None \<Rightarrow> Inl (name_error n)
      | Some b \<Rightarrow>
          (case first_error (map (evaluate p ctx) args) of
             Inl m \<Rightarrow> Inl m
           | Inr xs \<Rightarrow> call_object p b xs))"
| "evaluate p ctx (Unary operator a) =
     (case evaluate p ctx a of Inl m \<Rightarrow> Inl m | Inr x \<Rightarrow> unary_operation p operator x)"
| "evaluate p ctx (Binary operator a b) =
     (case evaluate p ctx a of
        Inl m \<Rightarrow> Inl m
      | Inr x \<Rightarrow>
          (case evaluate p ctx b of
             Inl m \<Rightarrow> Inl m
           | Inr y \<Rightarrow> binary_operation p operator x y))"

text \<open>The names an expression looks up.\<close>

fun names :: "expr \<Rightarrow> string set" where
  "names (Literal t) = {}"
| "names (Load n) = {n}"
| "names (CallName n args) = insert n (\<Union> (set (map names args)))"
| "names (Unary operator a) = names a"
| "names (Binary operator a b) = names a \<union> names b"

text \<open>
  A host whose \<open>eval\<close> evaluates the arithmetic expressions as above and is the given
  host's \<open>eval\<close> on every other text.
\<close>

definition eval_arithmetic ::
  "('v, 'f) python \<Rightarrow> (string, binding) dict \<Rightarrow> expr \<Rightarrow> string + 'f" where
  "eval_arithmetic p ctx a =
     (case evaluate p ctx a of Inl m \<Rightarrow> Inl m | Inr x \<Rightarrow> float_of p x)"

definition with_arithmetic ::
  "('v, 'f) python \<Rightarrow> ('f, 'z) host_scheme \<Rightarrow> ('f, 'z) host_scheme" where
  "with_arithmetic p h =
     h\<lparr>eval_float :=
         (\<lambda>ctx s. case parse_arithmetic s of
                    None \<Rightarrow> eval_float h ctx s
                  | Some a \<Rightarrow> eval_arithmetic p ctx a)\<rparr>"

section \<open>A host and a store for the examples\<close>

text \<open>
  The examples run on a host whose floats are the integral ones: the integer \<open>n\<close> stands
  for the float \<open>n.0\<close>. Its \<open>eval\<close> knows integer literals, float literals with a zero
  fraction, \<open>+\<close>, \<open>-\<close>, \<open>*\<close>, the unary signs, parentheses and blanks, with the
  precedences of the host language, and refuses everything else. The first argument of the parsing functions bounds their recursion.
\<close>

datatype token = TNum nat | TPlus | TMinus | TStar | TLpar | TRpar

definition literal_ok :: "string \<Rightarrow> bool" where
  "literal_ok ds = (ds \<noteq> [] \<and> (list_all (\<lambda>c. c = CHR ''0'') ds \<or> hd ds \<noteq> CHR ''0''))"

definition symbol_token :: "char \<Rightarrow> token list option" where
  "symbol_token c =
     (if c = CHR '' '' then Some []
      else if c = CHR ''+'' then Some [TPlus]
      else if c = CHR ''-'' then Some [TMinus]
      else if c = CHR ''*'' then Some [TStar]
      else if c = CHR ''('' then Some [TLpar]
      else if c = CHR '')'' then Some [TRpar]
      else None)"

definition literal_token :: "string \<Rightarrow> token list option" where
  "literal_token acc =
     (if acc = [] then Some [] else if literal_ok acc then Some [TNum (nat_of_digits acc)] else None)"

text \<open>
  The scanner collects the digits of a literal in \<open>acc\<close>; after a decimal point
  (\<open>frac\<close>) only zeros may follow, so that the literal denotes an integral float.
\<close>

fun lex :: "bool \<Rightarrow> string \<Rightarrow> string \<Rightarrow> token list option" where
  "lex frac acc [] = literal_token acc"
| "lex frac acc (c # cs) =
     (if ascii_digit c then
        (if frac then (if c = CHR ''0'' then lex True acc cs else None)
         else lex False (acc @ [c]) cs)
      else if c = CHR ''.'' \<and> \<not> frac \<and> acc \<noteq> [] then lex True acc cs
      else (case literal_token acc of
              None \<Rightarrow> None
            | Some n \<Rightarrow>
                (case symbol_token c of
                   None \<Rightarrow> None
                 | Some t \<Rightarrow>
                     (case lex False [] cs of None \<Rightarrow> None | Some ts \<Rightarrow> Some (n @ t @ ts)))))"

fun parse_sum :: "nat \<Rightarrow> token list \<Rightarrow> (int \<times> token list) option"
  and sum_tail :: "nat \<Rightarrow> int \<Rightarrow> token list \<Rightarrow> (int \<times> token list) option"
  and parse_product :: "nat \<Rightarrow> token list \<Rightarrow> (int \<times> token list) option"
  and product_tail :: "nat \<Rightarrow> int \<Rightarrow> token list \<Rightarrow> (int \<times> token list) option"
  and parse_factor :: "nat \<Rightarrow> token list \<Rightarrow> (int \<times> token list) option" where
  "parse_sum 0 ts = None"
| "parse_sum (Suc n) ts =
     (case parse_product n ts of None \<Rightarrow> None | Some (v, r) \<Rightarrow> sum_tail n v r)"
| "sum_tail 0 v ts = None"
| "sum_tail (Suc n) v ts =
     (case ts of
        TPlus # r \<Rightarrow>
          (case parse_product n r of None \<Rightarrow> None | Some (v', r') \<Rightarrow> sum_tail n (v + v') r')
      | TMinus # r \<Rightarrow>
          (case parse_product n r of None \<Rightarrow> None | Some (v', r') \<Rightarrow> sum_tail n (v - v') r')
      | _ \<Rightarrow> Some (v, ts))"
| "parse_product 0 ts = None"
| "parse_product (Suc n) ts =
     (case parse_factor n ts of None \<Rightarrow> None | Some (v, r) \<Rightarrow> product_tail n v r)"
| "product_tail 0 v ts = None"
| "product_tail (Suc n) v ts =
     (case ts of
        TStar # r \<Rightarrow>
          (case parse_factor n r of None \<Rightarrow> None | Some (v', r') \<Rightarrow> product_tail n (v * v') r')
      | _ \<Rightarrow> Some (v, ts))"
| "parse_factor 0 ts = None"
| "parse_factor (Suc n) ts =
     (case ts of
        TNum k # r \<Rightarrow> Some (int k, r)
      | TMinus # r \<Rightarrow> (case parse_factor n r of None \<Rightarrow> None | Some (v, r') \<Rightarrow> Some (- v, r'))
      | TPlus # r \<Rightarrow> parse_factor n r
      | TLpar # r \<Rightarrow>
          (case parse_sum n r of
             Some (v, TRpar # r') \<Rightarrow> Some (v, r')
           | _ \<Rightarrow> None)
      | _ \<Rightarrow> None)"

definition arith_eval :: "string \<Rightarrow> string + int" where
  "arith_eval s =
     (case lex False [] s of
        None \<Rightarrow> Inl ''SyntaxError''
      | Some ts \<Rightarrow>
          (case parse_sum (4 * length ts + 4) ts of
             Some (v, []) \<Rightarrow> Inr v
           | _ \<Rightarrow> Inl ''SyntaxError''))"

definition arith_host :: "int host" where
  "arith_host =
     \<lparr>eval_float = (\<lambda>ctx s. arith_eval s),
      float_of_string = (\<lambda>s. None),
      str_of_float = (\<lambda>x. str_int x @ ''.0''),
      float_zero = 0\<rparr>"

text \<open>The store before any object is made; its cells hold blank objects.\<close>

definition empty_world :: "'f world" where
  "empty_world =
     \<lparr>var_heap = (\<lambda>r. new_V2Variable [] PNone []),
      sol_heap = (\<lambda>r. \<lparr>sol_name = [], variables = [], aliases = []\<rparr>),
      next_ref = 0\<rparr>"

definition empty_system :: "'f system" where
  "empty_system =
     \<lparr>store = empty_world, v2_solutions = [],
      tracker = \<lparr>dependency_graph = [], reverse_dependencies = []\<rparr>\<rparr>"

text \<open>
  The example of the specification: the solutions \<open>panel\<close>, \<open>edge\<close> and \<open>result\<close>, made in
  this order (references 0, 1, 2) and registered under their names, with
  \<open>panel.length = 600\<close>, \<open>panel.width = 400\<close>, \<open>panel.thickness = 18\<close> and
  \<open>edge.thickness = 2\<close>.
\<close>

definition demo_registry :: registry where
  "demo_registry = [(''panel'', 0), (''edge'', 1), (''result'', 2)]"

definition demo_solutions :: "'f world" where
  "demo_solutions =
     snd (new_V2Solution (snd (new_V2Solution (snd (new_V2Solution empty_world ''panel'')) ''edge''))
            ''result'')"

definition run_statements ::
  "'f host \<Rightarrow> registry \<Rightarrow> 'f world \<Rightarrow> (nat \<times> string) list \<Rightarrow> 'f world" where
  "run_statements h reg w stmts =
     foldl (\<lambda>w (self, e). snd (execute_expression h w self e reg)) w stmts"

definition demo_world :: "'f host \<Rightarrow> 'f world" where
  "demo_world h =
     run_statements h demo_registry demo_solutions
       [(0, ''length@panel=600''), (0, ''width@panel=400''), (0, ''thickness@panel=18''),
        (1, ''thickness@edge=2'')]"

text \<open>The variable object a solution returns for a name or alias.\<close>

definition variable_of :: "'f world \<Rightarrow> nat \<Rightarrow> string \<Rightarrow> 'f V2Variable option" where
  "variable_of w self nm = map_option (var_heap w) (get_variable (sol_heap w self) nm)"

text \<open>
  A solution \<open>panel\<close> (reference 0) with the variables \<open>length\<close> and \<open>width\<close> and the alias
  \<open>L\<close> for \<open>length\<close>; and the same in the first variable system.
\<close>

definition panel_world :: "int world" where
  "panel_world =
     (let (p, w1) = new_V2Solution empty_world ''panel'';
          w2 = snd (create_variable w1 p ''length'' (PInt 600));
          w3 = snd (create_variable w2 p ''width'' (PInt 400))
      in snd (set_alias w3 p ''L'' ''length''))"

definition panel_v1 :: "int Solution" where
  "panel_v1 =
     \<lparr>s_variables = [(''length'', PInt 600), (''width'', PInt 400)],
      s_aliases = [(''L'', ''length'')]\<rparr>"

text \<open>
  The example after \<open>width@result=width.panel - 2*thickness.edge\<close> on the example host:
  the width of \<open>result\<close> is the variable at reference 7, with the cached value 396. In
  \<open>partial_registry\<close> the solution \<open>edge\<close> does not exist.
\<close>

definition cached_world :: "int world" where
  "cached_world =
     run_statements arith_host demo_registry (demo_world arith_host)
       [(2, ''width@result=width.panel - 2*thickness.edge'')]"

definition partial_registry :: registry where
  "partial_registry = [(''panel'', 0), (''result'', 2)]"

text \<open>The references among the pieces of a scan, in order.\<close>

definition refs_of :: "piece list \<Rightarrow> (string \<times> string) list" where
  "refs_of ps = concat (map (\<lambda>p. case p of Lit c \<Rightarrow> [] | Ref v sol \<Rightarrow> [(v, sol)]) ps)"

text \<open>
  Two hybrid solutions \<open>X\<close> and \<open>Y\<close>, made in this order, \<open>X\<close> with a variable \<open>a\<close> and
  \<open>Y\<close> with a variable \<open>b\<close> (both made by \<open>create_variable\<close> with the value 0), and the
  system after \<open>a@X=1\<close> on \<open>X\<close> and \<open>b@Y=a.X\<close> on \<open>Y\<close>, then after \<open>a@X=b.Y\<close> on \<open>X\<close>.
\<close>

definition hybrid_X :: "HybridSolution" where
  "hybrid_X =
     fst (snd (hybrid_create_variable (snd (new_HybridSolution (empty_system :: int system) ''X''))
                 (fst (new_HybridSolution (empty_system :: int system) ''X''))
                 ''a'' (PInt 0) CONTROLLABLE []))"

definition system_X :: "int system" where
  "system_X =
     snd (snd (hybrid_create_variable (snd (new_HybridSolution empty_system ''X''))
                 (fst (new_HybridSolution (empty_system :: int system) ''X''))
                 ''a'' (PInt 0) CONTROLLABLE []))"

definition hybrid_Y :: "HybridSolution" where
  "hybrid_Y =
     fst (snd (hybrid_create_variable (snd (new_HybridSolution system_X ''Y''))
                 (fst (new_HybridSolution system_X ''Y'')) ''b'' (PInt 0) CONTROLLABLE []))"

definition system_XY :: "int system" where
  "system_XY =
     snd (snd (hybrid_create_variable (snd (new_HybridSolution system_X ''Y''))
                 (fst (new_HybridSolution system_X ''Y'')) ''b'' (PInt 0) CONTROLLABLE []))"

definition before_cycle :: "int system" where
  "before_cycle =
     snd (execute_v2_expression arith_host
            (snd (execute_v2_expression arith_host system_XY hybrid_X ''a@X=1''))
            hybrid_Y ''b@Y=a.X'')"

definition after_cycle :: "int system" where
  "after_cycle = snd (execute_v2_expression arith_host before_cycle hybrid_X ''a@X=b.Y'')"

text \<open>
  The same three statements on two hybrid solutions without hybrid variables: the
  solutions \<open>X\<close> (V2 solution at reference 0) and \<open>Y\<close> (at reference 1) as their
  constructors leave them.
\<close>

definition bare_X :: "HybridSolution" where
  "bare_X = fst (new_HybridSolution (empty_system :: int system) ''X'')"

definition bare_Y :: "HybridSolution" where
  "bare_Y = fst (new_HybridSolution (snd (new_HybridSolution (empty_system :: int system) ''X'')) ''Y'')"

definition bare_cycle :: "int system" where
  "bare_cycle =
     snd (execute_v2_expression arith_host
            (snd (execute_v2_expression arith_host
                    (snd (execute_v2_expression arith_host
                            (snd (new_HybridSolution (snd (new_HybridSolution empty_system ''X'')) ''Y''))
                            bare_X ''a@X=1''))
                    bare_Y ''b@Y=a.X''))
            bare_X ''a@X=b.Y'')"

text \<open>
  An example of the host's part in the evaluation of arithmetic expressions, exact on
  whole numbers: a number is \<open>Some i\<close>, the whole number \<open>i\<close> (also for the float \<open>i.0\<close>), or
  \<open>None\<close>, a number that the example does not describe further and with which it does
  not compute. It knows \<open>abs\<close>, \<open>min\<close>, \<open>max\<close>, \<open>pow\<close> and \<open>round\<close> on whole numbers.
\<close>

definition whole_literal :: "string \<Rightarrow> int option" where
  "whole_literal t =
     (let whole = takeWhile ascii_digit t; fraction = drop (Suc (length whole)) t
      in if list_all (\<lambda>c. c = CHR ''0'') fraction then Some (int (nat_of_digits whole))
         else None)"

definition whole_unary :: "unary_op \<Rightarrow> int option object \<Rightarrow> string + int option object" where
  "whole_unary operator x =
     (case x of
        Numeric None \<Rightarrow> Inl ''unsupported''
      | Numeric (Some i) \<Rightarrow>
          Inr (Numeric (Some (case operator of OpPos \<Rightarrow> i | OpNeg \<Rightarrow> - i)))
      | Object b \<Rightarrow> Inl ''TypeError'')"

definition whole_power :: "int \<Rightarrow> int \<Rightarrow> string + int option object" where
  "whole_power i j =
     (if 0 \<le> j then Inr (Numeric (Some (i ^ nat j)))
      else if i = 0 then Inl ''ZeroDivisionError''
      else Inr (Numeric None))"

definition whole_binary ::
  "binary_op \<Rightarrow> int option object \<Rightarrow> int option object \<Rightarrow> string + int option object" where
  "whole_binary operator x y =
     (case x of
        Object b \<Rightarrow> Inl ''TypeError''
      | Numeric None \<Rightarrow> (case y of Object b \<Rightarrow> Inl ''TypeError'' | _ \<Rightarrow> Inl ''unsupported'')
      | Numeric (Some i) \<Rightarrow>
          (case y of
             Object b \<Rightarrow> Inl ''TypeError''
           | Numeric None \<Rightarrow> Inl ''unsupported''
           | Numeric (Some j) \<Rightarrow>
               (case operator of
                  OpAdd \<Rightarrow> Inr (Numeric (Some (i + j)))
                | OpSub \<Rightarrow> Inr (Numeric (Some (i - j)))
                | OpMult \<Rightarrow> Inr (Numeric (Some (i * j)))
                | OpDiv \<Rightarrow>
                    if j = 0 then Inl ''ZeroDivisionError''
                    else if j dvd i then Inr (Numeric (Some (i div j)))
                    else Inr (Numeric None)
                | OpPow \<Rightarrow> whole_power i j)))"

fun whole_numbers :: "int option object list \<Rightarrow> int list option" where
  "whole_numbers [] = Some []"
| "whole_numbers (Numeric (Some i) # xs) = map_option (Cons i) (whole_numbers xs)"
| "whole_numbers (x # xs) = None"

definition whole_call :: "binding \<Rightarrow> int option object list \<Rightarrow> string + int option object" where
  "whole_call b args =
     (case b of
        EmptyDict \<Rightarrow> Inl ''TypeError''
      | Callable f \<Rightarrow>
          (case whole_numbers args of
             None \<Rightarrow> Inl ''unsupported''
           | Some numbers \<Rightarrow>
               if f = Builtin_abs \<and> length numbers = 1
               then Inr (Numeric (Some (abs (hd numbers))))
               else if f = Builtin_round \<and> length numbers = 1
               then Inr (Numeric (Some (hd numbers)))
               else if f = Builtin_max \<and> 2 \<le> length numbers
               then Inr (Numeric (Some (fold max (tl numbers) (hd numbers))))
               else if f = Builtin_min \<and> 2 \<le> length numbers
               then Inr (Numeric (Some (fold min (tl numbers) (hd numbers))))
               else if f = Builtin_pow \<and> length numbers = 2
               then whole_power (hd numbers) (hd (tl numbers))
               else Inl ''unsupported''))"

definition whole_float :: "int option object \<Rightarrow> string + int" where
  "whole_float x =
     (case x of
        Numeric None \<Rightarrow> Inl ''unsupported''
      | Numeric (Some i) \<Rightarrow> Inr i
      | Object b \<Rightarrow> Inl ''TypeError'')"

definition whole_python :: "(int option, int) python" where
  "whole_python =
     \<lparr>literal_value = whole_literal, unary_operation = whole_unary,
      binary_operation = whole_binary, call_object = whole_call, float_of = whole_float\<rparr>"

text \<open>The example host with the conversion of the first system, \<open>float(i)\<close> being \<open>i.0\<close>.\<close>

definition arith_host1 :: "int host1" where
  "arith_host1 =
     \<lparr>eval_float = (\<lambda>ctx s. arith_eval s),
      float_of_string = (\<lambda>s. None),
      str_of_float = (\<lambda>x. str_int x @ ''.0''),
      float_zero = 0,
      float_of_int = (\<lambda>i. Inr i)\<rparr>"

text \<open>
  Two solutions of the first system that share one registry: \<open>panel\<close> (reference 0) with
  \<open>length = 600\<close> and \<open>width = 400\<close>, and \<open>result\<close> (reference 1) with the formula
  \<open>longest = max(length.panel, width.panel)\<close>.
\<close>

definition panel_registry1 :: "(string, nat) dict" where
  "panel_registry1 = [(''panel'', 0), (''result'', 1)]"

definition panel_store1 :: "int store1" where
  "panel_store1 =
     \<lparr>solution_at =
        (\<lambda>r. if r = 0
              then \<lparr>s_variables = [(''length'', PInt 600), (''width'', PInt 400)],
                    s_aliases = []\<rparr>
              else if r = 1
              then \<lparr>s_variables = [(''longest'', PStr ''max(length.panel, width.panel)'')],
                    s_aliases = []\<rparr>
              else \<lparr>s_variables = [], s_aliases = []\<rparr>),
      evaluator_registry = (\<lambda>r. panel_registry1)\<rparr>"

text \<open>
  A hybrid solution \<open>box\<close> with the variables \<open>length\<close> (aliases \<open>L\<close>, \<open>len\<close>) and
  \<open>width\<close> (aliases \<open>W\<close>, \<open>wid\<close>), the first two that \<open>HybridBoxSolution\<close> creates.
\<close>

definition system_box1 :: "HybridVariable \<times> HybridSolution \<times> int system" where
  "system_box1 =
     hybrid_create_variable (snd (new_HybridSolution empty_system ''box''))
       (fst (new_HybridSolution (empty_system :: int system) ''box''))
       ''length'' (PInt 0) CONTROLLABLE [''L'', ''len'']"

definition system_box2 :: "HybridVariable \<times> HybridSolution \<times> int system" where
  "system_box2 =
     hybrid_create_variable (snd (snd system_box1)) (fst (snd system_box1))
       ''width'' (PInt 0) CONTROLLABLE [''W'', ''wid'']"

definition hybrid_box :: "HybridSolution" where
  "hybrid_box = fst (snd system_box2)"

definition box_world :: "int world" where
  "box_world = store (snd (snd system_box2))"

definition box_width :: "HybridVariable" where
  "box_width = fst system_box2"

text \<open>
  The same solution after a second \<open>create_variable\<close> for the name \<open>length\<close>: the
  dictionary entry of the first variable \<open>length\<close> (legacy id 1) is overwritten by the new
  one (legacy id 3).
\<close>

definition box_length :: "HybridVariable" where
  "box_length = fst system_box1"

definition system_box3 :: "HybridVariable \<times> HybridSolution \<times> int system" where
  "system_box3 =
     hybrid_create_variable (snd (snd system_box2)) hybrid_box
       ''length'' (PInt 5) CONTROLLABLE []"

definition hybrid_box_again :: "HybridSolution" where
  "hybrid_box_again = fst (snd system_box3)"

definition box_world_again :: "int world" where
  "box_world_again = store (snd (snd system_box3))"

text \<open>
  Names made of letters, digits and underscores only, and a hybrid solution all of whose
  variable names and aliases, with those of its V2 solution, are such names.
\<close>

definition word :: "string \<Rightarrow> bool" where
  "word s = list_all ident_char s"

definition names_are_words :: "'f world \<Rightarrow> HybridSolution \<Rightarrow> bool" where
  "names_are_words w self =
     (list_all word (map fst (hs_variables self))
      \<and> list_all (\<lambda>var. list_all word (hv_aliases var)) (map snd (hs_variables self))
      \<and> list_all word (map fst (variables (sol_heap w (v2_solution self))))
      \<and> list_all word (map fst (aliases (sol_heap w (v2_solution self)))))"

text \<open>
  The legacy ids of a hybrid solution are fresh when they are pairwise different and all
  below the counter from which the next one is taken.
\<close>

definition legacy_ids_fresh :: "HybridSolution \<Rightarrow> bool" where
  "legacy_ids_fresh self =
     (distinct (map (\<lambda>v. variable_id v) (map snd (hs_variables self)))
      \<and> list_all (\<lambda>v. variable_id v < next_variable_id self) (map snd (hs_variables self)))"

text \<open>An identifier of the V2 patterns, as a predicate on strings.\<close>

definition is_identifier :: "string \<Rightarrow> bool" where
  "is_identifier s = (case s of [] \<Rightarrow> False | c # cs \<Rightarrow> ident_start c \<and> list_all ident_char cs)"

section \<open>Properties of name validation\<close>

lemma code_point_simps:
  "code_point (CHR ''a'') = 97" "code_point (CHR ''_'') = 95" "code_point newline = 10"
  "code_point (CHR ''@'') = 64" "code_point (CHR ''.'') = 46" "code_point (CHR ''#'') = 35"
  by (simp_all add: code_point_def newline_def)

lemma ident_char_not_special:
  "\<not> ident_char newline" "\<not> ident_char (CHR ''@'')" "\<not> ident_char (CHR ''.'')"
  "\<not> ident_char (CHR ''='')" "\<not> ident_char (CHR ''#'')"
  by (simp_all add: ident_char_def ascii_letter_def ascii_digit_def code_point_def newline_def)

lemma ident_start_char: "ident_start c \<Longrightarrow> ident_char c"
  by (auto simp: ident_start_def ident_char_def)

lemma alnum_first:
  "ident_char c \<Longrightarrow> (py_isalpha c \<or> py_isdigit c) = (ascii_letter c \<or> ascii_digit c)"
  by (auto simp: ident_char_def py_isalpha_def py_isdigit_def ascii_letter_def ascii_digit_def
      code_point_def)

lemma takeWhile_dropWhile_all:
  "dropWhile P s = [] \<Longrightarrow> list_all P s"
  by (induction s) (auto split: if_splits)

lemma dropWhile_singleton_split:
  "dropWhile P s = [x] \<Longrightarrow> s = takeWhile P s @ [x] \<and> list_all P (takeWhile P s)"
  by (metis takeWhile_dropWhile_id list_all_iff set_takeWhileD)

text \<open>
  What the validator accepts, exactly: the names of the grammar, and each of them followed
  by one line feed.
\<close>

lemma validate_name_iff:
  "validate_name s = (name_grammar s \<or> (\<exists>b. s = b @ [newline] \<and> name_grammar b))"
proof (cases s)
  case Nil
  then show ?thesis by (simp add: validate_name_def name_grammar_def)
next
  case (Cons c cs)
  show ?thesis
  proof (cases "ident_char c")
    case False
    then have "\<not> match_word_run s" by (simp add: match_word_run_def Cons)
    moreover have "\<not> name_grammar s"
      using False by (auto simp: name_grammar_def Cons ident_char_def)
    moreover have "\<not> (\<exists>b. s = b @ [newline] \<and> name_grammar b)"
    proof
      assume "\<exists>b. s = b @ [newline] \<and> name_grammar b"
      then obtain b where b: "s = b @ [newline]" "name_grammar b" by blast
      then obtain d ds where "b = d # ds" by (cases b) (auto simp: name_grammar_def)
      with b Cons have "d = c" "ascii_letter d \<or> ascii_digit d"
        by (auto simp: name_grammar_def)
      with False show False by (auto simp: ident_char_def)
    qed
    ultimately show ?thesis by (simp add: validate_name_def)
  next
    case True
    have first: "(py_isalpha c \<or> py_isdigit c) = (ascii_letter c \<or> ascii_digit c)"
      by (rule alnum_first [OF True])
    have tw: "takeWhile ident_char s \<noteq> []" using True Cons by simp
    show ?thesis
    proof (cases "ascii_letter c \<or> ascii_digit c")
      case False
      then have "\<not> name_grammar s" by (simp add: name_grammar_def Cons)
      moreover have "\<not> (\<exists>b. s = b @ [newline] \<and> name_grammar b)"
      proof
        assume "\<exists>b. s = b @ [newline] \<and> name_grammar b"
        then obtain b where b: "s = b @ [newline]" "name_grammar b" by blast
        then obtain d ds where "b = d # ds" by (cases b) (auto simp: name_grammar_def)
        with b Cons have "d = c" "ascii_letter d \<or> ascii_digit d"
          by (auto simp: name_grammar_def)
        with False show False by simp
      qed
      ultimately show ?thesis using False first by (simp add: validate_name_def Cons)
    next
      case alnum: True
      have no_special: "list_all ident_char xs \<Longrightarrow> CHR ''@'' \<notin> set xs \<and> CHR ''.'' \<notin> set xs" for xs
        using ident_char_not_special by (auto simp: list_all_iff)
      show ?thesis
      proof (cases "match_word_run s")
        case False
        have "\<not> name_grammar s"
        proof
          assume "name_grammar s"
          then have "list_all ident_char s" using True by (simp add: name_grammar_def Cons)
          then have "dropWhile ident_char s = []" by (simp add: list_all_iff)
          then show False using False tw by (simp add: match_word_run_def at_dollar_def)
        qed
        moreover have "\<not> (\<exists>b. s = b @ [newline] \<and> name_grammar b)"
        proof
          assume "\<exists>b. s = b @ [newline] \<and> name_grammar b"
          then obtain b where b: "s = b @ [newline]" "name_grammar b" by blast
          then have "list_all ident_char b"
            by (cases b) (auto simp: name_grammar_def ident_char_def)
          then have "dropWhile ident_char s = [newline]"
            using b ident_char_not_special by (simp add: dropWhile_append list_all_iff)
          then show False using False tw by (simp add: match_word_run_def at_dollar_def)
        qed
        ultimately show ?thesis using False by (simp add: validate_name_def)
      next
        case mw: True
        then consider "dropWhile ident_char s = []" | "dropWhile ident_char s = [newline]"
          by (auto simp: match_word_run_def at_dollar_def)
        then show ?thesis
        proof cases
          case 1
          then have all: "list_all ident_char s" by (rule takeWhile_dropWhile_all)
          then have g: "name_grammar s" using alnum by (simp add: name_grammar_def Cons)
          have "CHR ''@'' \<notin> set s \<and> CHR ''.'' \<notin> set s" using all by (rule no_special)
          then show ?thesis using g mw first alnum by (simp add: validate_name_def Cons)
        next
          case 2
          define b where "b = takeWhile ident_char s"
          have sb: "s = b @ [newline]" and allb: "list_all ident_char b"
            using dropWhile_singleton_split [OF 2] by (simp_all add: b_def)
          have "b \<noteq> []" using tw by (simp add: b_def)
          then obtain d ds where bd: "b = d # ds" by (cases b) auto
          with sb Cons have "d = c" by simp
          then have g: "name_grammar b" using alnum allb bd by (simp add: name_grammar_def)
          have "CHR ''@'' \<notin> set b \<and> CHR ''.'' \<notin> set b" using allb by (rule no_special)
          then have "CHR ''@'' \<notin> set s \<and> CHR ''.'' \<notin> set s"
            using sb by (simp add: newline_def)
          then have "validate_name s" using mw first alnum by (simp add: validate_name_def Cons)
          then show ?thesis using sb g by blast
        qed
      qed
    qed
  qed
qed

text \<open>
  C9. The validator is claimed to accept exactly the strings that are non-empty, start
  with a letter or digit and consist of letters, digits and underscores. It also accepts
  such a name followed by a line feed: on the two-character string made of \<open>a\<close> and a
  line feed it returns true, although the line feed is none of the permitted characters
  and the string is not in the language of the name grammar.
\<close>

theorem validate_name_trailing_newline:
  "validate_name [CHR ''a'', newline] \<and> \<not> list_all ident_char [CHR ''a'', newline]
   \<and> \<not> name_grammar [CHR ''a'', newline]"
  by (simp add: validate_name_def match_word_run_def at_dollar_def name_grammar_def
      py_isalpha_def py_isdigit_def ident_char_def ascii_letter_def ascii_digit_def
      code_point_def newline_def)

section \<open>Properties of the V2 parser\<close>

lemmas char_defs =
  py_isspace_def code_point_def ident_start_def ident_char_def ascii_letter_def ascii_digit_def
  newline_def

lemmas parser_defs =
  parse_expression_def py_strip_def match_assignment_def match_ident_def match_rest_def
  at_dollar_def contains_variable_references_def findall_refs_def match_ref_def
  extract_variable_references_def match_read_def match_alias_def is_valid_alias_def
  parse_value_def py_int_def nat_of_digits_def digit_value_def

lemmas store_defs =
  upd_var_def upd_sol_def new_V2Variable_def alloc_var_def new_V2Solution_def create_variable_def
  get_variable_def set_alias_def set_value_def dict_has_def empty_world_def

lemmas hybrid_defs =
  new_HybridSolution_def hybrid_create_variable_def execute_v2_expression_def
  get_variable_by_reference_def by_legacy_number_def by_legacy_full_id_def by_v2_alias_def
  by_legacy_alias_def find_variable_def add_dependency_def set_add_def new_read_id_def
  new_write_id_def legacy_id_def legacy_full_id_def empty_system_def Let_def

lemma map_of_dict_set: "map_of (dict_set d k v) = (map_of d)(k \<mapsto> v)"
  by (induction d k v rule: dict_set.induct) auto

lemma digit_char_simps:
  "digit_char 0 = CHR ''0''" "digit_char 1 = CHR ''1''" "digit_char 2 = CHR ''2''"
  "digit_char 3 = CHR ''3''" "digit_char 4 = CHR ''4''" "digit_char 5 = CHR ''5''"
  "digit_char 6 = CHR ''6''" "digit_char 7 = CHR ''7''" "digit_char 8 = CHR ''8''"
  "digit_char 9 = CHR ''9''" "digit_char (Suc 0) = CHR ''1''"
  unfolding digit_char_def by code_simp+

lemmas eval_defs =
  execute_expression_def set_formula_def store_formula_def evaluate_formula_def
  resolve_variable_references_def replace_reference_def computed_value_cached_def
  value_property_def is_number_def py_str_def str_int_def str_nat.simps digit_char_simps
  replace_caret_def get_computed_value_def Let_def

lemmas demo_defs =
  variable_of_def demo_world_def run_statements_def demo_solutions_def demo_registry_def

text \<open>What the example host computes for the arithmetic texts of the examples.\<close>

lemma arith_eval_examples:
  "arith_eval ''400 - 2*2'' = Inr 396" "arith_eval ''600'' = Inr 600"
  "arith_eval ''800'' = Inr 800" "arith_eval ''1'' = Inr 1" "arith_eval ''1.0'' = Inr 1"
  "arith_eval ''0.0'' = Inr 0"
  by (simp_all add: arith_eval_def literal_token_def literal_ok_def symbol_token_def
      nat_of_digits_def digit_value_def ascii_digit_def code_point_def eval_nat_numeral)

lemma arith_host_simps:
  "eval_float arith_host ctx s = arith_eval s" "float_of_string arith_host s = None"
  "str_of_float arith_host x = str_int x @ ''.0''" "float_zero arith_host = 0"
  by (simp_all add: arith_host_def)

lemmas arith_defs = arith_host_simps arith_eval_examples

lemma match_ident_prefix:
  assumes "is_identifier i" and "\<not> ident_char c"
  shows "match_ident (i @ c # rest) = Some (i, c # rest)"
proof -
  obtain d ds where i: "i = d # ds" and d: "ident_start d" and ds: "list_all ident_char ds"
    using assms(1) by (cases i) (auto simp: is_identifier_def)
  have "takeWhile ident_char (ds @ c # rest) = ds" "dropWhile ident_char (ds @ c # rest) = c # rest"
    using ds assms(2) by (simp_all add: list_all_iff takeWhile_append2 dropWhile_append2)
  then show ?thesis using d by (simp add: match_ident_def i)
qed

lemma match_rest_line:
  assumes "rhs \<noteq> []" and "newline \<notin> set rhs"
  shows "match_rest rhs = Some rhs"
proof -
  have t: "takeWhile (\<lambda>c. c \<noteq> newline) rhs = rhs"
    using assms(2) by (auto simp: takeWhile_eq_all_conv)
  have d: "dropWhile (\<lambda>c. c \<noteq> newline) rhs = []"
    using assms(2) by auto
  show ?thesis unfolding match_rest_def Let_def t d at_dollar_def using assms(1) by simp
qed

text \<open>A text of the shape \<open>name@solution=rhs\<close> matches the assignment pattern.\<close>

lemma match_assignment_shape:
  assumes "is_identifier v" and "is_identifier sol" and "rhs \<noteq> []" and "newline \<notin> set rhs"
  shows "match_assignment (v @ CHR ''@'' # sol @ CHR ''='' # rhs) = Some (v, sol, rhs)"
proof -
  have 1: "match_ident (v @ CHR ''@'' # sol @ CHR ''='' # rhs) = Some (v, CHR ''@'' # sol @ CHR ''='' # rhs)"
    using assms(1) ident_char_not_special(2) by (rule match_ident_prefix)
  have 2: "match_ident (sol @ CHR ''='' # rhs) = Some (sol, CHR ''='' # rhs)"
    using assms(2) ident_char_not_special(4) by (rule match_ident_prefix)
  show ?thesis
    using assms(3,4) by (simp add: match_assignment_def 1 2 match_rest_line)
qed

section \<open>Writes to another solution\<close>

text \<open>
  C10. A statement \<open>name@other=rhs\<close> (an Assignment or a Formula: \<open>name\<close> and \<open>other\<close>
  identifiers, \<open>rhs\<close> a non-empty line), executed on a solution whose name is not
  \<open>other\<close>, raises \<open>Cannot assign to variable in different solution\<close>, and the store of all
  variables and solutions is the one before the call.
\<close>

theorem cross_solution_write_rejected:
  assumes "py_strip e = nm @ ''@'' @ other @ ''='' @ rhs"
    and "is_identifier nm" and "is_identifier other" and "rhs \<noteq> []" and "newline \<notin> set rhs"
    and "other \<noteq> sol_name (sol_heap w self)"
  shows "execute_expression h w self e reg = (Some (CannotAssign other), w)"
proof -
  have m: "match_assignment (py_strip e) = Some (nm, other, rhs)"
    using assms(1-5) match_assignment_shape [of nm other rhs] by simp
  show ?thesis
    using assms(6) by (simp add: execute_expression_def parse_expression_def m)
qed

theorem cross_solution_write_rejected_witness:
  "execute_expression arith_host (snd (new_V2Solution empty_world ''result'')) 0
     '' length@panel=800 '' [(''result'', 0)]
   = (Some (CannotAssign ''panel''), snd (new_V2Solution empty_world ''result''))"
  by (rule cross_solution_write_rejected [where nm = "''length''" and rhs = "''800''"])
    (simp_all add: py_strip_def is_identifier_def char_defs store_defs)

section \<open>The example of the specification\<close>

text \<open>
  C8. With \<open>panel.length = 600\<close>, \<open>panel.width = 400\<close>, \<open>panel.thickness = 18\<close> and
  \<open>edge.thickness = 2\<close> in the registry, executing
  \<open>width@result=width.panel - 2*thickness.edge\<close> hands the text \<open>400 - 2*2\<close> to the host's
  evaluator and caches its value, 396, as the width of \<open>result\<close>. A variable of \<open>result\<close>
  defined by \<open>length.panel\<close> reads 600, and after \<open>panel\<close>'s length is set to 800,
  reading it again with the registry yields 800. The three hypotheses say what the host
  language computes for the three arithmetic texts.
\<close>

theorem panel_edge_result_scenario:
  assumes "eval_float h safe_dict ''400 - 2*2'' = Inr x396"
    and "eval_float h safe_dict ''600'' = Inr x600"
    and "eval_float h safe_dict ''800'' = Inr x800"
  shows
    "map_option (value_property h)
       (variable_of
          (run_statements h demo_registry (demo_world h)
             [(2, ''width@result=width.panel - 2*thickness.edge'')]) 2 ''width'')
       = Some (PFloat x396)
     \<and> map_option (value_property h)
         (variable_of
            (run_statements h demo_registry (demo_world h) [(2, ''length@result=length.panel'')])
            2 ''length'')
       = Some (PFloat x600)
     \<and> (let w = run_statements h demo_registry (demo_world h)
                  [(2, ''length@result=length.panel''), (0, ''length@panel=800'')]
        in map_option (\<lambda>r. fst (get_computed_value h w r (Some demo_registry)))
             (get_variable (sol_heap w 2) ''length''))
       = Some (PFloat x800)"
proof -
  have width: "map_option (value_property h)
       (variable_of
          (run_statements h demo_registry (demo_world h)
             [(2, ''width@result=width.panel - 2*thickness.edge'')]) 2 ''width'')
       = Some (PFloat x396)"
    using assms(1) by (simp add: demo_defs store_defs eval_defs parser_defs char_defs)
  have length_before: "map_option (value_property h)
         (variable_of
            (run_statements h demo_registry (demo_world h) [(2, ''length@result=length.panel'')])
            2 ''length'')
       = Some (PFloat x600)"
    using assms(2) by (simp add: demo_defs store_defs eval_defs parser_defs char_defs)
  have length_after: "(let w = run_statements h demo_registry (demo_world h)
                  [(2, ''length@result=length.panel''), (0, ''length@panel=800'')]
        in map_option (\<lambda>r. fst (get_computed_value h w r (Some demo_registry)))
             (get_variable (sol_heap w 2) ''length''))
       = Some (PFloat x800)"
    using assms(2,3) by (simp add: demo_defs store_defs eval_defs parser_defs char_defs)
  from width length_before length_after show ?thesis by (intro conjI)
qed

text \<open>On the example host the three texts evaluate to 396, 600 and 800.\<close>

theorem panel_edge_result_scenario_witness:
  "map_option (value_property arith_host)
       (variable_of
          (run_statements arith_host demo_registry (demo_world arith_host)
             [(2, ''width@result=width.panel - 2*thickness.edge'')]) 2 ''width'')
       = Some (PFloat 396)
     \<and> map_option (value_property arith_host)
         (variable_of
            (run_statements arith_host demo_registry (demo_world arith_host)
               [(2, ''length@result=length.panel'')])
            2 ''length'')
       = Some (PFloat 600)
     \<and> (let w = run_statements arith_host demo_registry (demo_world arith_host)
                  [(2, ''length@result=length.panel''), (0, ''length@panel=800'')]
        in map_option (\<lambda>r. fst (get_computed_value arith_host w r (Some demo_registry)))
             (get_variable (sol_heap w 2) ''length''))
       = Some (PFloat 800)"
  by (rule panel_edge_result_scenario) (simp_all add: arith_defs)

section \<open>Aliases\<close>

text \<open>
  C6, as the code has it. \<open>set_alias\<close> of the V2 solution raises when the alias contains
  \<open>@\<close> or \<open>.\<close>, and when \<open>variable_name\<close> is no variable of the solution; \<open>set_alias\<close> of
  the first system returns \<open>False\<close> when the alias is no valid name, and when the variable
  does not exist. On these failures nothing changes. In every other case the call succeeds
  and binds the alias to the variable, whether or not the alias was bound before or is
  the name of a variable: no collision is checked.
\<close>

theorem set_alias_outcome:
  "fst (set_alias w self alias vn) =
     (if CHR ''@'' \<in> set alias \<or> CHR ''.'' \<in> set alias then Some (InvalidAlias alias)
      else if map_of (variables (sol_heap w self)) vn = None then Some (AliasTargetNotFound vn)
      else None)
   \<and> snd (set_alias w self alias vn) =
     (if fst (set_alias w self alias vn) = None
      then upd_sol w self (\<lambda>s. s\<lparr>aliases := dict_set (aliases s) alias vn\<rparr>)
      else w)
   \<and> map_of (aliases (sol_heap (snd (set_alias w self alias vn)) self)) =
     (if fst (set_alias w self alias vn) = None
      then (map_of (aliases (sol_heap w self)))(alias \<mapsto> vn)
      else map_of (aliases (sol_heap w self)))
   \<and> fst (solution_set_alias s alias vn) =
     (validate_name alias \<and> map_of (s_variables s) vn \<noteq> None)
   \<and> snd (solution_set_alias s alias vn) =
     (if fst (solution_set_alias s alias vn)
      then s\<lparr>s_aliases := dict_set (s_aliases s) alias vn\<rparr>
      else s)"
  by (simp add: set_alias_def is_valid_alias_def dict_has_def upd_sol_def map_of_dict_set
      solution_set_alias_def)

text \<open>
  The claim fails where it says that a colliding alias is refused: in \<open>panel\<close>, binding the
  existing alias \<open>L\<close> to \<open>width\<close> succeeds and rebinds it, and so does binding the alias
  \<open>width\<close>, the name of a variable, to \<open>length\<close>; the first system rebinds \<open>L\<close> too.
\<close>

theorem set_alias_collision_accepted:
  "map_of (aliases (sol_heap panel_world 0)) ''L'' = Some ''length''
   \<and> map_of (variables (sol_heap panel_world 0)) ''width'' \<noteq> None
   \<and> fst (set_alias panel_world 0 ''L'' ''width'') = None
   \<and> map_of (aliases (sol_heap (snd (set_alias panel_world 0 ''L'' ''width'')) 0)) ''L'' = Some ''width''
   \<and> fst (set_alias panel_world 0 ''width'' ''length'') = None
   \<and> map_of (aliases (sol_heap (snd (set_alias panel_world 0 ''width'' ''length'')) 0)) ''width''
       = Some ''length''
   \<and> solution_set_alias panel_v1 ''L'' ''width''
       = (True, panel_v1\<lparr>s_aliases := [(''L'', ''width'')]\<rparr>)"
  by (simp add: panel_world_def panel_v1_def store_defs is_valid_alias_def solution_set_alias_def
      validate_name_def match_word_run_def at_dollar_def py_isalpha_def py_isdigit_def char_defs)

section \<open>Failed evaluations and the cached value\<close>

lemma cached_world_width:
  "get_variable (sol_heap cached_world 2) ''width'' = Some 7"
  "var_heap cached_world 7 =
     \<lparr>name = ''width'', solution_name = ''result'', raw_value = PNone, is_formula = True,
      formula = Some ''width.panel - 2*thickness.edge'',
      dependencies = [''width.panel'', ''thickness.edge''],
      last_computed_value = Some 396, computation_error = None\<rparr>"
  by (simp_all add: cached_world_def demo_defs store_defs eval_defs parser_defs char_defs arith_defs)

lemma nosuch_fails:
  "evaluate_formula h w demo_registry ''width.nosuch''
     = Inl (ErrorEvaluatingFormula ''width.nosuch'' (SolutionNotFound ''nosuch''))"
  by (simp add: evaluate_formula_def resolve_variable_references_def replace_reference_def
      demo_registry_def parser_defs char_defs)

text \<open>
  C2, as the code has it. When the immediate evaluation of the new formula fails,
  \<open>set_formula\<close> records the failure in \<open>computation_error\<close> and sets
  \<open>last_computed_value\<close> to \<open>0.0\<close>, whatever was cached before; the variable keeps the new
  formula and its dependencies.
\<close>

theorem set_formula_failure_resets_cache:
  assumes "evaluate_formula h (upd_var w self (\<lambda>v. store_formula v f)) reg f = Inl e"
  shows "var_heap (set_formula h w self f reg) self =
           (store_formula (var_heap w self) f)
             \<lparr>computation_error := Some e, last_computed_value := Some (float_zero h)\<rparr>"
  using assms by (simp add: set_formula_def upd_var_def)

theorem set_formula_failure_resets_cache_witness:
  "var_heap (set_formula arith_host cached_world 7 ''width.nosuch'' demo_registry) 7 =
     \<lparr>name = ''width'', solution_name = ''result'', raw_value = PNone, is_formula = True,
      formula = Some ''width.nosuch'', dependencies = [''width.nosuch''],
      last_computed_value = Some 0,
      computation_error = Some (ErrorEvaluatingFormula ''width.nosuch'' (SolutionNotFound ''nosuch''))\<rparr>"
  using set_formula_failure_resets_cache [OF nosuch_fails, of arith_host cached_world 7]
  by (simp add: cached_world_width store_formula_def arith_host_simps parser_defs char_defs)

text \<open>
  The claim fails where it says that the cached value is retained: the width of \<open>result\<close>
  is a formula variable whose formula evaluated to 396, without error; after
  \<open>set_formula\<close> with \<open>width.nosuch\<close> the failure is recorded and the cached value is 0.
\<close>

theorem set_formula_failure_zeroes_cache:
  "get_variable (sol_heap cached_world 2) ''width'' = Some 7
   \<and> is_formula (var_heap cached_world 7)
   \<and> computation_error (var_heap cached_world 7) = None
   \<and> last_computed_value (var_heap cached_world 7) = Some 396
   \<and> computation_error
       (var_heap (set_formula arith_host cached_world 7 ''width.nosuch'' demo_registry) 7)
       = Some (ErrorEvaluatingFormula ''width.nosuch'' (SolutionNotFound ''nosuch''))
   \<and> last_computed_value
       (var_heap (set_formula arith_host cached_world 7 ''width.nosuch'' demo_registry) 7)
       = Some 0"
  by (simp add: cached_world_width set_formula_def nosuch_fails upd_var_def arith_host_simps)

subsection \<open>Re-evaluation with a registry\<close>

lemma refs_of_simps:
  "refs_of [] = []" "refs_of (Lit c # ps) = refs_of ps" "refs_of (Ref v sol # ps) = (v, sol) # refs_of ps"
  by (simp_all add: refs_of_def)

lemma findall_refs_of: "findall_refs f = refs_of (scan_refs f)"
  by (simp add: findall_refs_def refs_of_def)

text \<open>The substitution fails with the failure of the first reference that does not resolve.\<close>

lemma sub_refs_first_failure:
  assumes "refs_of ps = before @ (v, sol) # after"
    and "list_all (\<lambda>(v', s'). \<not> isl (repl v' s')) before"
    and "repl v sol = Inl e"
  shows "sub_refs repl ps = Inl e"
  using assms
proof (induction ps arbitrary: before)
  case Nil
  then show ?case by (simp add: refs_of_simps)
next
  case (Cons p ps)
  show ?case
  proof (cases p)
    case (Lit c)
    with Cons show ?thesis by (simp add: refs_of_simps)
  next
    case (Ref v' s')
    show ?thesis
    proof (cases before)
      case Nil
      with Cons.prems Ref show ?thesis by (simp add: refs_of_simps)
    next
      case (Cons b bs)
      with Cons.prems Ref have b: "b = (v', s')" and rest: "refs_of ps = bs @ (v, sol) # after"
        and ok: "\<not> isl (repl v' s')" and oks: "list_all (\<lambda>(v', s'). \<not> isl (repl v' s')) bs"
        by (auto simp: refs_of_simps)
      have "sub_refs repl ps = Inl e" using Cons.IH [OF rest oks Cons.prems(3)] .
      with ok Ref show ?thesis by (cases "repl v' s'") auto
    qed
  qed
qed

lemma sub_refs_some_failure:
  assumes "(v, sol) \<in> set (refs_of ps)" and "isl (repl v sol)"
  shows "\<exists>e. sub_refs repl ps = Inl e \<and> (\<exists>v' s'. (v', s') \<in> set (refs_of ps) \<and> repl v' s' = Inl e)"
  using assms
proof (induction ps)
  case Nil
  then show ?case by (simp add: refs_of_simps)
next
  case (Cons p ps)
  show ?case
  proof (cases p)
    case (Lit c)
    with Cons.prems have "(v, sol) \<in> set (refs_of ps)" by (simp add: refs_of_simps)
    from Cons.IH [OF this Cons.prems(2)] obtain e v' s' where
      "sub_refs repl ps = Inl e" "(v', s') \<in> set (refs_of ps)" "repl v' s' = Inl e" by blast
    then show ?thesis using Lit
      by (intro exI [of _ e] conjI exI [of _ v'] exI [of _ s']) (simp_all add: refs_of_simps)
  next
    case (Ref v' s')
    show ?thesis
    proof (cases "repl v' s'")
      case (Inl e)
      then show ?thesis using Ref
        by (intro exI [of _ e] conjI exI [of _ v'] exI [of _ s']) (simp_all add: refs_of_simps)
    next
      case (Inr t)
      with Cons.prems Ref have "(v, sol) \<in> set (refs_of ps)" by (auto simp: refs_of_simps)
      from Cons.IH [OF this Cons.prems(2)] obtain e v'' s'' where
        "sub_refs repl ps = Inl e" "(v'', s'') \<in> set (refs_of ps)" "repl v'' s'' = Inl e" by blast
      then show ?thesis using Ref Inr
        by (intro exI [of _ e] conjI exI [of _ v''] exI [of _ s'']) (simp_all add: refs_of_simps)
    qed
  qed
qed

text \<open>
  C7, as the code has it. A formula variable with the cached value \<open>c\<close> is read with a
  registry in which a solution referenced by its formula does not exist. The evaluation
  fails in the resolver: the error \<open>e\<close> recorded on the variable is the failure of one of
  the formula's references, and it is the unknown-solution error whenever all references
  before that one resolve. The call returns \<open>c\<close>, the store changes in
  \<open>computation_error\<close> of this variable only, and a later read without registry returns
  \<open>c\<close> again.
\<close>

theorem reevaluation_failure_keeps_cache:
  assumes "is_formula (var_heap w self)" and "formula (var_heap w self) = Some f"
    and "last_computed_value (var_heap w self) = Some c"
    and "findall_refs f = before @ (v, sol) # after" and "map_of reg sol = None"
  shows "\<exists>e. get_computed_value h w self (Some reg)
              = (PFloat c, upd_var w self (\<lambda>x. x\<lparr>computation_error := Some (ErrorEvaluatingFormula f e)\<rparr>))
           \<and> (\<exists>v' s'. (v', s') \<in> set (findall_refs f) \<and> replace_reference h w reg v' s' = Inl e)
           \<and> (list_all (\<lambda>(v', s'). \<not> isl (replace_reference h w reg v' s')) before
                \<longrightarrow> e = SolutionNotFound sol)
           \<and> get_computed_value h
                (upd_var w self (\<lambda>x. x\<lparr>computation_error := Some (ErrorEvaluatingFormula f e)\<rparr>))
                self None
              = (PFloat c, upd_var w self (\<lambda>x. x\<lparr>computation_error := Some (ErrorEvaluatingFormula f e)\<rparr>))"
proof -
  let ?repl = "replace_reference h w reg"
  have fail: "?repl v sol = Inl (SolutionNotFound sol)"
    using assms(5) by (simp add: replace_reference_def)
  have mem: "(v, sol) \<in> set (refs_of (scan_refs f))"
    using assms(4) by (simp add: findall_refs_of [symmetric])
  from sub_refs_some_failure [OF mem, of ?repl] fail
  obtain e where e: "sub_refs ?repl (scan_refs f) = Inl e"
    and src: "\<exists>v' s'. (v', s') \<in> set (findall_refs f) \<and> ?repl v' s' = Inl e"
    by (auto simp: findall_refs_of)
  have first: "e = SolutionNotFound sol"
    if "list_all (\<lambda>(v', s'). \<not> isl (?repl v' s')) before"
    using sub_refs_first_failure [OF assms(4) [unfolded findall_refs_of] that fail] e by simp
  have ev: "evaluate_formula h w reg f = Inl (ErrorEvaluatingFormula f e)"
    using e by (simp add: evaluate_formula_def resolve_variable_references_def)
  have g: "get_computed_value h w self (Some reg)
      = (PFloat c, upd_var w self (\<lambda>x. x\<lparr>computation_error := Some (ErrorEvaluatingFormula f e)\<rparr>))"
    using assms(1-3) ev by (simp add: get_computed_value_def computed_value_cached_def)
  have r: "get_computed_value h
        (upd_var w self (\<lambda>x. x\<lparr>computation_error := Some (ErrorEvaluatingFormula f e)\<rparr>)) self None
      = (PFloat c, upd_var w self (\<lambda>x. x\<lparr>computation_error := Some (ErrorEvaluatingFormula f e)\<rparr>))"
    using assms(1-3) by (simp add: get_computed_value_def computed_value_cached_def upd_var_def)
  from g src first r show ?thesis by blast
qed

text \<open>
  The width of \<open>result\<close>, read with a registry without \<open>edge\<close>: \<open>width.panel\<close> resolves,
  \<open>thickness.edge\<close> names an unknown solution, and the cached 396 is returned.
\<close>

theorem reevaluation_failure_keeps_cache_witness:
  "get_computed_value arith_host cached_world 7 (Some partial_registry)
     = (PFloat 396,
        upd_var cached_world 7
          (\<lambda>x. x\<lparr>computation_error :=
                    Some (ErrorEvaluatingFormula ''width.panel - 2*thickness.edge''
                            (SolutionNotFound ''edge''))\<rparr>))"
proof -
  have refs: "findall_refs ''width.panel - 2*thickness.edge''
                = [(''width'', ''panel'')] @ (''thickness'', ''edge'') # []"
    by (simp add: parser_defs char_defs)
  have ok: "list_all (\<lambda>(v', s'). \<not> isl (replace_reference arith_host cached_world partial_registry v' s'))
              [(''width'', ''panel'')]"
    by (simp add: replace_reference_def partial_registry_def cached_world_def demo_defs store_defs
        eval_defs parser_defs char_defs arith_defs)
  have missing: "map_of partial_registry ''edge'' = None"
    by (simp add: partial_registry_def)
  from reevaluation_failure_keeps_cache [OF _ _ _ refs missing, of cached_world 7 396 arith_host] ok
  show ?thesis by (auto simp: cached_world_width)
qed

text \<open>
  The claim fails where it says that the recorded error is always the unknown solution.
  After \<open>width@panel=wide\<close> the width of \<open>panel\<close> is a text. The formula of \<open>result\<close>'s width
  still refers to \<open>thickness.edge\<close>, and \<open>edge\<close> is not in the registry; the error recorded
  is that \<open>width.panel\<close> is not numeric, the failure of the reference before it.
\<close>

theorem first_failure_is_reported:
  "(let w = run_statements arith_host demo_registry cached_world [(0, ''width@panel=wide'')]
    in (''thickness'', ''edge'') \<in> set (findall_refs ''width.panel - 2*thickness.edge'')
       \<and> map_of partial_registry ''edge'' = None
       \<and> formula (var_heap w 7) = Some ''width.panel - 2*thickness.edge''
       \<and> last_computed_value (var_heap w 7) = Some 396
       \<and> computation_error (var_heap (snd (get_computed_value arith_host w 7 (Some partial_registry))) 7)
           = Some (ErrorEvaluatingFormula ''width.panel - 2*thickness.edge'' (NotNumeric ''width.panel'')))"
  by (simp add: partial_registry_def cached_world_def demo_defs store_defs
        eval_defs parser_defs char_defs arith_defs)

section \<open>The function tables of the evaluators\<close>



section \<open>Cycles in the dependency graph\<close>

lemma hybrid_X_eq:
  "hybrid_X = \<lparr>hs_name = ''X'', v2_solution = 0,
      hs_variables = [(''a'', \<lparr>hv_name = ''a'', hv_solution_name = ''X'', variable_id = 1,
           var_type = CONTROLLABLE, hv_aliases = [], v2_variable = 2\<rparr>)],
      next_variable_id = 2\<rparr>"
  by (simp add: hybrid_X_def hybrid_defs store_defs)

lemma hybrid_Y_eq:
  "hybrid_Y = \<lparr>hs_name = ''Y'', v2_solution = 3,
      hs_variables = [(''b'', \<lparr>hv_name = ''b'', hv_solution_name = ''Y'', variable_id = 1,
           var_type = CONTROLLABLE, hv_aliases = [], v2_variable = 5\<rparr>)],
      next_variable_id = 2\<rparr>"
  by (simp add: hybrid_Y_def system_X_def hybrid_defs store_defs)

lemmas cycle_defs =
  after_cycle_def before_cycle_def system_XY_def system_X_def hybrid_X_eq hybrid_Y_eq
  bare_cycle_def bare_X_def bare_Y_def

text \<open>
  C1 says that \<open>a@X=b.Y\<close>, executed after \<open>a@X=1\<close> and \<open>b@Y=a.X\<close>, is detected as a cycle
  and not committed, and that the stored graph stays acyclic. The code does neither.
  With hybrid variables \<open>a\<close> and \<open>b\<close>: before the third statement the check
  \<open>has_circular_dependency\<close>, asked about \<open>a.X\<close> with the new dependencies \<open>b.Y\<close>, answers
  no (it does not read them); \<open>execute_v2_expression\<close> raises nothing; afterwards \<open>a\<close> of
  \<open>X\<close> is the formula \<open>b.Y\<close>, the graph holds both edges, and the check on the stored graph
  finds the cycle. Without hybrid variables the formula is committed as well, and the
  tracker records nothing at all.
\<close>

theorem cycle_is_committed:
  "has_circular_dependency (tracker before_cycle) ''a.X'' [''b.Y''] = Some False
   \<and> fst (execute_v2_expression arith_host before_cycle hybrid_X ''a@X=b.Y'') = None
   \<and> map_option (\<lambda>x. (is_formula x, formula x, computation_error x))
        (variable_of (store after_cycle) (v2_solution hybrid_X) ''a'')
      = Some (True, Some ''b.Y'', None)
   \<and> dependency_graph (tracker after_cycle) = [(''b.Y'', [''a.X'']), (''a.X'', [''b.Y''])]
   \<and> has_circular_dependency (tracker after_cycle) ''a.X'' [] = Some True
   \<and> map_option (\<lambda>x. (is_formula x, formula x, computation_error x))
        (variable_of (store bare_cycle) (v2_solution bare_X) ''a'')
      = Some (True, Some ''b.Y'', None)
   \<and> map_option (\<lambda>x. (is_formula x, formula x))
        (variable_of (store bare_cycle) (v2_solution bare_Y) ''b'')
      = Some (True, Some ''a.X'')
   \<and> dependency_graph (tracker bare_cycle) = []"
proof -
  have not_detected: "has_circular_dependency (tracker before_cycle) ''a.X'' [''b.Y''] = Some False"
    by (simp add: has_circular_dependency_def cycle_defs hybrid_defs store_defs eval_defs
        parser_defs char_defs arith_defs)
  have accepted: "fst (execute_v2_expression arith_host before_cycle hybrid_X ''a@X=b.Y'') = None"
    by (simp add: cycle_defs hybrid_defs store_defs eval_defs parser_defs char_defs arith_defs)
  have committed: "map_option (\<lambda>x. (is_formula x, formula x, computation_error x))
        (variable_of (store after_cycle) (v2_solution hybrid_X) ''a'')
      = Some (True, Some ''b.Y'', None)"
    by (simp add: variable_of_def cycle_defs hybrid_defs store_defs eval_defs parser_defs
        char_defs arith_defs)
  have graph: "dependency_graph (tracker after_cycle) = [(''b.Y'', [''a.X'']), (''a.X'', [''b.Y''])]"
    by (simp add: cycle_defs hybrid_defs store_defs eval_defs parser_defs char_defs arith_defs)
  have cyclic: "has_circular_dependency (tracker after_cycle) ''a.X'' [] = Some True"
    by (simp add: has_circular_dependency_def graph)
  have bare_a: "map_option (\<lambda>x. (is_formula x, formula x, computation_error x))
        (variable_of (store bare_cycle) (v2_solution bare_X) ''a'')
      = Some (True, Some ''b.Y'', None)"
    by (simp add: variable_of_def cycle_defs hybrid_defs store_defs eval_defs parser_defs
        char_defs arith_defs)
  have bare_b: "map_option (\<lambda>x. (is_formula x, formula x))
        (variable_of (store bare_cycle) (v2_solution bare_Y) ''b'')
      = Some (True, Some ''a.X'')"
    by (simp add: variable_of_def cycle_defs hybrid_defs store_defs eval_defs parser_defs
        char_defs arith_defs)
  have bare_graph: "dependency_graph (tracker bare_cycle) = []"
    by (simp add: cycle_defs hybrid_defs store_defs eval_defs parser_defs char_defs arith_defs)
  from not_detected accepted committed graph cyclic bare_a bare_b bare_graph
  show ?thesis by (intro conjI)
qed

section \<open>The dispatch of statements\<close>

lemma parse_alias_valid:
  "parse_expression h e = Inr (ALIAS a v) \<Longrightarrow> is_valid_alias a"
  by (auto simp: parse_expression_def Let_def split: option.splits if_splits prod.splits)

text \<open>After the creation step of Assignment and Formula the name is bound.\<close>

lemma ensure_variable:
  assumes "w1 = (if \<not> dict_has (variables (sol_heap w self)) nm
                 then snd (create_variable w self nm PNone) else w)"
  shows "\<exists>r. map_of (variables (sol_heap w1 self)) nm = Some r"
    and "sol_name (sol_heap w1 self) = sol_name (sol_heap w self)"
    and "aliases (sol_heap w1 self) = aliases (sol_heap w self)"
  using assms by (auto simp: store_defs map_of_dict_set split: prod.splits)

lemma variable_of_upd_var:
  assumes "map_of (variables (sol_heap w self)) nm = Some r"
  shows "variable_of (upd_var w r g) self nm = Some (g (var_heap w r))"
  using assms by (simp add: variable_of_def get_variable_def dict_has_def upd_var_def)

lemma sol_heap_upd_var: "sol_heap (upd_var w r g) = sol_heap w"
  by (simp add: upd_var_def)

lemma sol_heap_set_formula: "sol_heap (set_formula h w r f reg) = sol_heap w"
  by (simp add: set_formula_def upd_var_def Let_def split: sum.splits)

lemma var_heap_set_formula:
  "(is_formula (var_heap (set_formula h w r f reg) r),
    formula (var_heap (set_formula h w r f reg) r),
    dependencies (var_heap (set_formula h w r f reg) r))
   = (True, Some f, extract_variable_references f)"
  by (simp add: set_formula_def upd_var_def store_formula_def Let_def split: sum.splits)

lemma execute_assignment:
  assumes "parse_expression h e = Inr (ASSIGNMENT nm sol v)" and "sol = sol_name (sol_heap w self)"
  shows "fst (execute_expression h w self e reg) = None
         \<and> map_option (\<lambda>x. (raw_value x, is_formula x, formula x))
              (variable_of (snd (execute_expression h w self e reg)) self nm)
            = Some (v, False, None)
         \<and> aliases (sol_heap (snd (execute_expression h w self e reg)) self)
            = aliases (sol_heap w self)"
proof -
  define w1 where "w1 = (if \<not> dict_has (variables (sol_heap w self)) nm
                          then snd (create_variable w self nm PNone) else w)"
  from ensure_variable [OF w1_def] obtain r where
    r: "map_of (variables (sol_heap w1 self)) nm = Some r"
    and al: "aliases (sol_heap w1 self) = aliases (sol_heap w self)" by blast
  have ex: "execute_expression h w self e reg = (None, upd_var w1 r (\<lambda>x. set_value x v))"
    using assms r by (simp add: execute_expression_def w1_def [symmetric])
  show ?thesis
    unfolding ex using al by (simp add: variable_of_upd_var [OF r] sol_heap_upd_var set_value_def)
qed

lemma execute_formula:
  assumes "parse_expression h e = Inr (FORMULA nm sol f deps)" and "sol = sol_name (sol_heap w self)"
  shows "fst (execute_expression h w self e reg) = None
         \<and> map_option (\<lambda>x. (is_formula x, formula x, dependencies x))
              (variable_of (snd (execute_expression h w self e reg)) self nm)
            = Some (True, Some f, extract_variable_references f)
         \<and> aliases (sol_heap (snd (execute_expression h w self e reg)) self)
            = aliases (sol_heap w self)"
proof -
  define w1 where "w1 = (if \<not> dict_has (variables (sol_heap w self)) nm
                          then snd (create_variable w self nm PNone) else w)"
  from ensure_variable [OF w1_def] obtain r where
    r: "map_of (variables (sol_heap w1 self)) nm = Some r"
    and al: "aliases (sol_heap w1 self) = aliases (sol_heap w self)" by blast
  have ex: "execute_expression h w self e reg = (None, set_formula h w1 r f reg)"
    using assms r by (simp add: execute_expression_def w1_def [symmetric])
  have look: "get_variable (sol_heap w1 self) nm = Some r"
    using r by (simp add: get_variable_def dict_has_def)
  show ?thesis
    unfolding ex using al var_heap_set_formula [of h w1 r f reg]
    by (simp add: variable_of_def look sol_heap_set_formula)
qed

lemma execute_alias_new:
  assumes "parse_expression h e = Inr (ALIAS a v)"
    and "map_of (variables (sol_heap w self)) a = None" and "map_of (aliases (sol_heap w self)) a = None"
  shows "fst (execute_expression h w self e reg) = None
         \<and> map_of (aliases (sol_heap (snd (execute_expression h w self e reg)) self))
            = (map_of (aliases (sol_heap w self)))(a \<mapsto> ''_alias_'' @ a)
         \<and> map_option (\<lambda>x. (raw_value x, is_formula x))
              (variable_of (snd (execute_expression h w self e reg)) self a)
            = Some (v, False)"
proof -
  have valid: "CHR ''@'' \<notin> set a \<and> CHR ''.'' \<notin> set a"
    using parse_alias_valid [OF assms(1)] by (simp add: is_valid_alias_def)
  have neq: "a \<noteq> ''_alias_'' @ a" by (induction a) auto
  show ?thesis
    using assms valid neq
    by (simp add: execute_expression_def Let_def variable_of_def store_defs map_of_dict_set
        is_valid_alias_def split: prod.splits)
qed

lemma execute_alias_old:
  assumes "parse_expression h e = Inr (ALIAS a v)"
    and "\<not> (map_of (variables (sol_heap w self)) a = None \<and> map_of (aliases (sol_heap w self)) a = None)"
  shows "fst (execute_expression h w self e reg) = None
         \<and> aliases (sol_heap (snd (execute_expression h w self e reg)) self)
            = aliases (sol_heap w self)
         \<and> map_option (\<lambda>x. (raw_value x, is_formula x))
              (variable_of (snd (execute_expression h w self e reg)) self a)
            = map_option (\<lambda>x. (v, False)) (variable_of w self a)"
proof (cases "get_variable (sol_heap w self) a")
  case None
  then show ?thesis using assms
    by (auto simp: execute_expression_def variable_of_def dict_has_def)
next
  case (Some r)
  then show ?thesis using assms
    by (auto simp: execute_expression_def variable_of_def dict_has_def upd_var_def set_value_def)
qed


lemma parse_formula_deps:
  "parse_expression h e = Inr (FORMULA nm sol f deps) \<Longrightarrow> deps = extract_variable_references f"
  by (auto simp: parse_expression_def Let_def split: option.splits if_splits prod.splits)

lemma add_dependency_graph:
  "map_of (dependency_graph (add_dependency t k deps)) k = Some deps"
  by (simp add: add_dependency_def map_of_dict_set)

lemma execute_v2_store:
  "fst (execute_v2_expression h g hs e)
     = fst (execute_expression h (store g) (v2_solution hs) e (v2_solutions g))
   \<and> store (snd (execute_v2_expression h g hs e))
     = snd (execute_expression h (store g) (v2_solution hs) e (v2_solutions g))"
  by (auto simp: execute_v2_expression_def Let_def split: prod.splits option.splits sum.splits
      statement.splits)

lemma execute_v2_tracker:
  "(case parse_expression h e of
      Inr (FORMULA nm sol f deps) \<Rightarrow>
        (case get_variable_by_reference (store (snd (execute_v2_expression h g hs e))) hs nm of
           Some var \<Rightarrow>
             (if fst (execute_v2_expression h g hs e) = None
              then map_of (dependency_graph (tracker (snd (execute_v2_expression h g hs e))))
                     (new_read_id var) = Some (extract_variable_references f)
              else tracker (snd (execute_v2_expression h g hs e)) = tracker g)
         | None \<Rightarrow> tracker (snd (execute_v2_expression h g hs e)) = tracker g)
    | _ \<Rightarrow> tracker (snd (execute_v2_expression h g hs e)) = tracker g)"
proof (cases "parse_expression h e")
  case (Inl err)
  then show ?thesis
    by (simp add: execute_v2_expression_def execute_expression_def)
next
  case (Inr st)
  show ?thesis
  proof (cases st)
    case (FORMULA nm sol f deps)
    have deps: "deps = extract_variable_references f"
      using Inr FORMULA by (simp add: parse_formula_deps)
    show ?thesis
      using Inr FORMULA deps
      by (auto simp: execute_v2_expression_def Let_def add_dependency_graph
          split: prod.splits option.splits)
  next
    case (ASSIGNMENT nm sol v)
    with Inr show ?thesis
      by (auto simp: execute_v2_expression_def Let_def split: prod.splits option.splits)
  next
    case (READ t sv ss)
    with Inr show ?thesis
      by (auto simp: execute_v2_expression_def Let_def split: prod.splits option.splits)
  next
    case (ALIAS a v)
    with Inr show ?thesis
      by (auto simp: execute_v2_expression_def Let_def split: prod.splits option.splits)
  qed
qed


text \<open>What \<open>execute_expression\<close> does for each type of statement.\<close>

lemma execute_expression_cases:
  "(case parse_expression h e of
      Inl err \<Rightarrow> execute_expression h w self e reg = (Some err, w)
    | Inr (READ target source_var source_solution) \<Rightarrow>
        execute_expression h w self e reg = (Some CannotExecute, w)
    | Inr (ASSIGNMENT nm sol v) \<Rightarrow>
        (if sol = sol_name (sol_heap w self)
         then fst (execute_expression h w self e reg) = None
              \<and> map_option (\<lambda>x. (raw_value x, is_formula x, formula x))
                   (variable_of (snd (execute_expression h w self e reg)) self nm)
                 = Some (v, False, None)
              \<and> aliases (sol_heap (snd (execute_expression h w self e reg)) self)
                 = aliases (sol_heap w self)
         else execute_expression h w self e reg = (Some (CannotAssign sol), w))
    | Inr (FORMULA nm sol f deps) \<Rightarrow>
        (if sol = sol_name (sol_heap w self)
         then fst (execute_expression h w self e reg) = None
              \<and> map_option (\<lambda>x. (is_formula x, formula x, dependencies x))
                   (variable_of (snd (execute_expression h w self e reg)) self nm)
                 = Some (True, Some f, extract_variable_references f)
              \<and> aliases (sol_heap (snd (execute_expression h w self e reg)) self)
                 = aliases (sol_heap w self)
         else execute_expression h w self e reg = (Some (CannotAssign sol), w))
    | Inr (ALIAS a v) \<Rightarrow>
        fst (execute_expression h w self e reg) = None
        \<and> (if map_of (variables (sol_heap w self)) a = None \<and> map_of (aliases (sol_heap w self)) a = None
           then map_of (aliases (sol_heap (snd (execute_expression h w self e reg)) self))
                  = (map_of (aliases (sol_heap w self)))(a \<mapsto> ''_alias_'' @ a)
                \<and> map_option (\<lambda>x. (raw_value x, is_formula x))
                     (variable_of (snd (execute_expression h w self e reg)) self a)
                   = Some (v, False)
           else aliases (sol_heap (snd (execute_expression h w self e reg)) self)
                  = aliases (sol_heap w self)
                \<and> map_option (\<lambda>x. (raw_value x, is_formula x))
                     (variable_of (snd (execute_expression h w self e reg)) self a)
                   = map_option (\<lambda>x. (v, False)) (variable_of w self a)))"
proof (cases "parse_expression h e")
  case (Inl err)
  then show ?thesis by (simp add: execute_expression_def)
next
  case (Inr st)
  show ?thesis
  proof (cases st)
    case (ASSIGNMENT nm sol v)
    show ?thesis
    proof (cases "sol = sol_name (sol_heap w self)")
      case True
      with execute_assignment [of h e nm sol v w self reg] Inr ASSIGNMENT show ?thesis by simp
    next
      case False
      with Inr ASSIGNMENT show ?thesis by (simp add: execute_expression_def)
    qed
  next
    case (FORMULA nm sol f deps)
    show ?thesis
    proof (cases "sol = sol_name (sol_heap w self)")
      case True
      with execute_formula [of h e nm sol f deps w self reg] Inr FORMULA show ?thesis by simp
    next
      case False
      with Inr FORMULA show ?thesis by (simp add: execute_expression_def)
    qed
  next
    case (READ t sv ss)
    with Inr show ?thesis by (simp add: execute_expression_def)
  next
    case (ALIAS a v)
    show ?thesis
    proof (cases "map_of (variables (sol_heap w self)) a = None \<and> map_of (aliases (sol_heap w self)) a = None")
      case True
      with execute_alias_new [of h e a v w self reg] Inr ALIAS show ?thesis by simp
    next
      case False
      from execute_alias_old [where h = h and e = e and v = v and reg = reg, OF _ False] Inr ALIAS
      have "fst (execute_expression h w self e reg) = None
         \<and> aliases (sol_heap (snd (execute_expression h w self e reg)) self)
            = aliases (sol_heap w self)
         \<and> map_option (\<lambda>x. (raw_value x, is_formula x))
              (variable_of (snd (execute_expression h w self e reg)) self a)
            = map_option (\<lambda>x. (v, False)) (variable_of w self a)" by simp
      then show ?thesis unfolding Inr ALIAS using False by (simp only: if_not_P sum.case statement.case) simp
    qed
  qed
qed

text \<open>
  C4, as the code has it. \<open>execute_expression\<close> dispatches on the type of the statement.
  An Assignment or Formula for the executing solution creates the variable if it is
  missing and sets its value or its formula (for another solution it raises, see C10).
  An Alias whose name is neither a variable nor an alias creates the variable
  \<open>_alias_<name>\<close> with the value and binds the alias to it; otherwise it stores the value
  in the variable the name resolves to, if any, and leaves the alias table as it is.
  A Read statement raises \<open>Cannot execute expression type\<close> and changes nothing.
  \<open>execute_v2_expression\<close> runs the statement in the V2 solution against the manager's
  registry; after a Formula that raised nothing, the extracted references are stored in
  the tracker's graph under the read id of the hybrid variable that
  \<open>get_variable_by_reference\<close> returns for the variable's name, if it returns one; in all
  other cases the tracker is unchanged.
\<close>

theorem execute_dispatch:
  "(case parse_expression h e of
      Inl err \<Rightarrow> execute_expression h w self e reg = (Some err, w)
    | Inr (READ target source_var source_solution) \<Rightarrow>
        execute_expression h w self e reg = (Some CannotExecute, w)
    | Inr (ASSIGNMENT nm sol v) \<Rightarrow>
        (if sol = sol_name (sol_heap w self)
         then fst (execute_expression h w self e reg) = None
              \<and> map_option (\<lambda>x. (raw_value x, is_formula x, formula x))
                   (variable_of (snd (execute_expression h w self e reg)) self nm)
                 = Some (v, False, None)
              \<and> aliases (sol_heap (snd (execute_expression h w self e reg)) self)
                 = aliases (sol_heap w self)
         else execute_expression h w self e reg = (Some (CannotAssign sol), w))
    | Inr (FORMULA nm sol f deps) \<Rightarrow>
        (if sol = sol_name (sol_heap w self)
         then fst (execute_expression h w self e reg) = None
              \<and> map_option (\<lambda>x. (is_formula x, formula x, dependencies x))
                   (variable_of (snd (execute_expression h w self e reg)) self nm)
                 = Some (True, Some f, extract_variable_references f)
              \<and> aliases (sol_heap (snd (execute_expression h w self e reg)) self)
                 = aliases (sol_heap w self)
         else execute_expression h w self e reg = (Some (CannotAssign sol), w))
    | Inr (ALIAS a v) \<Rightarrow>
        fst (execute_expression h w self e reg) = None
        \<and> (if map_of (variables (sol_heap w self)) a = None \<and> map_of (aliases (sol_heap w self)) a = None
           then map_of (aliases (sol_heap (snd (execute_expression h w self e reg)) self))
                  = (map_of (aliases (sol_heap w self)))(a \<mapsto> ''_alias_'' @ a)
                \<and> map_option (\<lambda>x. (raw_value x, is_formula x))
                     (variable_of (snd (execute_expression h w self e reg)) self a)
                   = Some (v, False)
           else aliases (sol_heap (snd (execute_expression h w self e reg)) self)
                  = aliases (sol_heap w self)
                \<and> map_option (\<lambda>x. (raw_value x, is_formula x))
                     (variable_of (snd (execute_expression h w self e reg)) self a)
                   = map_option (\<lambda>x. (v, False)) (variable_of w self a)))
   \<and> fst (execute_v2_expression h g hs e)
       = fst (execute_expression h (store g) (v2_solution hs) e (v2_solutions g))
   \<and> store (snd (execute_v2_expression h g hs e))
       = snd (execute_expression h (store g) (v2_solution hs) e (v2_solutions g))
   \<and> (case parse_expression h e of
        Inr (FORMULA nm sol f deps) \<Rightarrow>
          (case get_variable_by_reference (store (snd (execute_v2_expression h g hs e))) hs nm of
             Some var \<Rightarrow>
               (if fst (execute_v2_expression h g hs e) = None
                then map_of (dependency_graph (tracker (snd (execute_v2_expression h g hs e))))
                       (new_read_id var) = Some (extract_variable_references f)
                else tracker (snd (execute_v2_expression h g hs e)) = tracker g)
           | None \<Rightarrow> tracker (snd (execute_v2_expression h g hs e)) = tracker g)
      | _ \<Rightarrow> tracker (snd (execute_v2_expression h g hs e)) = tracker g)"
  using execute_expression_cases [where h = h and e = e and w = w and self = self and reg = reg]
    execute_v2_store [where h = h and g = g and hs = hs and e = e]
    execute_v2_tracker [where h = h and g = g and hs = hs and e = e]
  by (intro conjI) simp_all

text \<open>
  The claim fails for a Read statement: \<open>a=length.panel\<close> is classified as Read, and
  executing it on \<open>result\<close> raises and copies nothing. It also fails for a Formula on a
  hybrid solution without a hybrid variable of that name: after \<open>b@Y=a.X\<close> and
  \<open>a@X=b.Y\<close> the tracker's graph is empty.
\<close>

theorem read_statement_rejected:
  "parse_expression arith_host ''a=length.panel'' = Inr (READ ''a'' ''length'' ''panel'')
   \<and> execute_expression arith_host (demo_world arith_host) 2 ''a=length.panel'' demo_registry
       = (Some CannotExecute, demo_world arith_host)
   \<and> variable_of (demo_world arith_host) 2 ''a'' = None
   \<and> parse_expression arith_host ''b@Y=a.X'' = Inr (FORMULA ''b'' ''Y'' ''a.X'' [''a.X''])
   \<and> dependency_graph (tracker bare_cycle) = []"
proof -
  have p: "parse_expression arith_host ''a=length.panel'' = Inr (READ ''a'' ''length'' ''panel'')"
    by (simp add: parser_defs char_defs)
  have x: "execute_expression arith_host (demo_world arith_host) 2 ''a=length.panel'' demo_registry
       = (Some CannotExecute, demo_world arith_host)"
    by (simp add: execute_expression_def p)
  have v: "variable_of (demo_world arith_host) 2 ''a'' = None"
    by (simp add: demo_defs store_defs eval_defs parser_defs char_defs)
  have f: "parse_expression arith_host ''b@Y=a.X'' = Inr (FORMULA ''b'' ''Y'' ''a.X'' [''a.X''])"
    by (simp add: parser_defs char_defs)
  have t: "dependency_graph (tracker bare_cycle) = []"
    by (simp add: cycle_defs hybrid_defs store_defs eval_defs parser_defs char_defs arith_defs)
  from p x v f t show ?thesis by (intro conjI)
qed

section \<open>Resolving the addresses of a variable\<close>

subsection \<open>Decimal numerals\<close>

lemma digit_char_props:
  assumes "d < 10"
  shows "code_point (digit_char d) = 48 + d" and "ascii_digit (digit_char d)"
    and "digit_value (digit_char d) = d"
proof -
  show c: "code_point (digit_char d) = 48 + d"
    using assms by (simp add: code_point_def digit_char_def)
  show "ascii_digit (digit_char d)" using assms by (simp add: ascii_digit_def c)
  show "digit_value (digit_char d) = d" by (simp add: digit_value_def c)
qed

lemma str_nat_digits: "list_all ascii_digit (str_nat n) \<and> str_nat n \<noteq> []"
proof (induction n rule: str_nat.induct)
  case (1 n)
  show ?case
  proof (cases "n < 10")
    case True
    then show ?thesis by (simp add: str_nat.simps [of n] digit_char_props)
  next
    case False
    then have "n mod 10 < 10" by simp
    with 1 False show ?thesis by (simp add: str_nat.simps [of n] digit_char_props)
  qed
qed

lemma nat_of_digits_snoc:
  "nat_of_digits (s @ [c]) = (if ascii_digit c then 10 * nat_of_digits s + digit_value c else nat_of_digits s)"
  by (simp add: nat_of_digits_def)

lemma nat_of_digits_str_nat: "nat_of_digits (str_nat n) = n"
proof (induction n rule: str_nat.induct)
  case (1 n)
  show ?case
  proof (cases "n < 10")
    case True
    then show ?thesis
      using nat_of_digits_snoc [of "[]" "digit_char n"]
      by (simp add: str_nat.simps [of n] digit_char_props nat_of_digits_def)
  next
    case False
    then have "n mod 10 < 10" by simp
    with 1 False show ?thesis
      by (simp add: str_nat.simps [of n] nat_of_digits_snoc digit_char_props)
  qed
qed

lemma digits_ok_all_digits:
  "list_all ascii_digit s \<Longrightarrow> s \<noteq> [] \<or> b \<Longrightarrow> digits_ok b s"
  by (induction s arbitrary: b) auto

lemma digits_ok_chars:
  "digits_ok b s \<Longrightarrow> list_all (\<lambda>c. ascii_digit c \<or> c = CHR ''_'') s"
  by (induction s arbitrary: b) (auto split: if_splits)

lemma digit_not_special:
  assumes "ascii_digit c"
  shows "\<not> py_isspace c" and "c \<noteq> CHR ''-''" and "c \<noteq> CHR ''+''" and "c \<noteq> CHR ''.''"
    and "c \<noteq> CHR ''#''" and "ident_char c"
  using assms by (auto simp: ascii_digit_def py_isspace_def ident_char_def code_point_def)

lemma ident_char_not_space: "ident_char c \<Longrightarrow> \<not> py_isspace c"
  by (auto simp: ident_char_def ascii_letter_def ascii_digit_def py_isspace_def code_point_def)

lemma special_not_space:
  "\<not> py_isspace (CHR ''#'')" "\<not> py_isspace (CHR ''.'')" "\<not> py_isspace (CHR ''@'')"
  "\<not> py_isspace (CHR ''-'')"
  by (simp_all add: py_isspace_def code_point_def)

subsection \<open>Stripping\<close>

lemma py_strip_id:
  assumes "s \<noteq> []" and "\<not> py_isspace (hd s)" and "\<not> py_isspace (last s)"
  shows "py_strip s = s"
proof -
  have 1: "dropWhile py_isspace s = s" using assms(1,2) by (cases s) auto
  have "rev s \<noteq> []" "\<not> py_isspace (hd (rev s))" using assms(1,3) by (simp_all add: hd_rev)
  then have 2: "dropWhile py_isspace (rev s) = rev s" by (cases "rev s") auto
  show ?thesis by (simp add: py_strip_def 1 2)
qed

lemma in_dropWhile: "x \<in> set xs \<Longrightarrow> \<not> P x \<Longrightarrow> x \<in> set (dropWhile P xs)"
  by (induction xs) auto

lemma in_py_strip: "c \<in> set s \<Longrightarrow> \<not> py_isspace c \<Longrightarrow> c \<in> set (py_strip s)"
  by (simp add: py_strip_def in_dropWhile)

lemma hd_py_strip:
  assumes "s \<noteq> []" and "\<not> py_isspace (hd s)"
  shows "py_strip s \<noteq> [] \<and> hd (py_strip s) = hd s"
proof -
  obtain c cs where s: "s = c # cs" using assms(1) by (cases s) auto
  have 1: "dropWhile py_isspace s = s" using assms(2) s by simp
  have "c \<in> set (dropWhile py_isspace (rev s))"
    using assms(2) s by (intro in_dropWhile) auto
  then have ne: "dropWhile py_isspace (rev s) \<noteq> []" using assms(2) s by auto
  have "rev (dropWhile py_isspace (rev s)) @ rev (takeWhile py_isspace (rev s)) = s"
    by (metis rev_append rev_rev_ident takeWhile_dropWhile_id)
  then have "hd (rev (dropWhile py_isspace (rev s))) = hd s"
    using ne by (metis hd_append2 rev_is_Nil_conv)
  then show ?thesis using ne by (simp add: py_strip_def 1)
qed

subsection \<open>Reading a printed integer\<close>

lemma str_nat_ends:
  "ascii_digit (hd (str_nat n))" "ascii_digit (last (str_nat n))"
  using str_nat_digits [of n] by (auto simp: list_all_iff)

lemma str_int_props:
  "str_int i \<noteq> []" "\<not> py_isspace (hd (str_int i))" "\<not> py_isspace (last (str_int i))"
  "CHR ''.'' \<notin> set (str_int i)" "hd (str_int i) \<noteq> CHR ''+''"
proof -
  have ne: "str_nat n \<noteq> []" for n using str_nat_digits [of n] by simp
  have nodot: "CHR ''.'' \<notin> set (str_nat n)" for n
    using str_nat_digits [of n] digit_not_special(4) by (auto simp: list_all_iff)
  show "str_int i \<noteq> []" using ne by (simp add: str_int_def)
  show "\<not> py_isspace (hd (str_int i))"
    using str_nat_ends(1) digit_not_special(1) special_not_space by (simp add: str_int_def)
  show "\<not> py_isspace (last (str_int i))"
    using str_nat_ends(2) ne digit_not_special(1) by (simp add: str_int_def)
  show "CHR ''.'' \<notin> set (str_int i)"
    using nodot by (simp add: str_int_def)
  show "hd (str_int i) \<noteq> CHR ''+''"
    using str_nat_ends(1) digit_not_special(3) by (auto simp: str_int_def)
qed

lemma py_int_str_int: "py_int (str_int i) = Some i"
proof -
  have strip: "py_strip (str_int i) = str_int i"
    using str_int_props by (intro py_strip_id)
  show ?thesis
  proof (cases "i < 0")
    case True
    have s: "str_int i = CHR ''-'' # str_nat (nat (- i))" using True by (simp add: str_int_def)
    have ok: "digits_ok False (str_nat (nat (- i)))"
      using str_nat_digits [of "nat (- i)"] by (intro digits_ok_all_digits) simp_all
    show ?thesis
      unfolding py_int_def strip Let_def using True ok
      by (simp add: s nat_of_digits_str_nat)
  next
    case False
    have s: "str_int i = str_nat (nat i)" using False by (simp add: str_int_def)
    have hd: "ascii_digit (hd (str_nat (nat i)))"
      using str_nat_digits [of "nat i"] by (auto simp: list_all_iff)
    have ok: "digits_ok False (str_nat (nat i))"
      using str_nat_digits [of "nat i"] by (intro digits_ok_all_digits) simp_all
    have ne: "str_nat (nat i) \<noteq> []" using str_nat_digits [of "nat i"] by simp
    show ?thesis
      unfolding py_int_def strip Let_def using False ok ne hd digit_not_special(2,3) [OF hd]
      by (simp add: s nat_of_digits_str_nat)
  qed
qed

lemma in_set_tl: "x \<in> set (tl xs) \<Longrightarrow> x \<in> set xs"
  by (cases xs) auto

lemma py_int_with_dot:
  assumes "CHR ''.'' \<in> set (tl (py_strip s))
           \<or> (CHR ''.'' \<in> set (py_strip s) \<and> hd (py_strip s) \<noteq> CHR ''-'' \<and> hd (py_strip s) \<noteq> CHR ''+'')"
  shows "py_int s = None"
proof (rule ccontr)
  let ?t = "py_strip s"
  let ?body = "if ?t \<noteq> [] \<and> (hd ?t = CHR ''-'' \<or> hd ?t = CHR ''+'') then tl ?t else ?t"
  assume "py_int s \<noteq> None"
  then have ok: "digits_ok False ?body"
    by (auto simp: py_int_def Let_def split: if_splits)
  have dot: "CHR ''.'' \<in> set ?body"
  proof (cases "?t \<noteq> [] \<and> (hd ?t = CHR ''-'' \<or> hd ?t = CHR ''+'')")
    case True
    with assms show ?thesis by auto
  next
    case False
    with assms in_set_tl [of "CHR ''.''" ?t] show ?thesis by auto
  qed
  from digits_ok_chars [OF ok] dot have "ascii_digit (CHR ''.'') \<or> CHR ''.'' = CHR ''_''"
    unfolding list_all_iff by blast
  then show False by (simp add: ascii_digit_def code_point_def)
qed


subsection \<open>The resolver\<close>

lemma not_word: "c \<in> set s \<Longrightarrow> \<not> ident_char c \<Longrightarrow> \<not> word s"
  by (auto simp: word_def list_all_iff)

lemma map_of_words: "list_all word (map fst d) \<Longrightarrow> \<not> word k \<Longrightarrow> map_of d k = None"
  by (induction d) auto

lemma find_unique:
  assumes "distinct (map f xs)" and "x \<in> set xs"
  shows "find (\<lambda>y. f y = f x) xs = Some x"
  using assms by (induction xs) (auto simp: image_iff)

lemma find_by_id:
  assumes "map_of (hs_variables self) k = Some var"
    and "distinct (map (\<lambda>v. variable_id v) (map snd (hs_variables self)))"
  shows "find_variable self (\<lambda>v. variable_id v = variable_id var) = Some var"
proof -
  have "var \<in> set (map snd (hs_variables self))"
    using assms(1) by (force dest: map_of_SomeD)
  from find_unique [OF assms(2) this] show ?thesis by (simp add: find_variable_def)
qed

lemma find_none: "list_all (\<lambda>x. \<not> P x) xs \<Longrightarrow> find P xs = None"
  by (induction xs) auto

text \<open>A reference that is no word finds nothing by name, by V2 name or alias, or by legacy alias.\<close>

lemma no_word_no_name:
  assumes "names_are_words w self" and "\<not> word r"
  shows "map_of (hs_variables self) r = None" and "by_v2_alias w self r = None"
    and "by_legacy_alias self r = None"
proof -
  show "map_of (hs_variables self) r = None"
    using assms by (simp add: names_are_words_def map_of_words)
  have "map_of (variables (sol_heap w (v2_solution self))) r = None"
    "map_of (aliases (sol_heap w (v2_solution self))) r = None"
    using assms by (simp_all add: names_are_words_def map_of_words)
  then show "by_v2_alias w self r = None"
    by (simp add: by_v2_alias_def get_variable_def dict_has_def)
  have "list_all (\<lambda>var. \<not> r \<in> set (hv_aliases var)) (map snd (hs_variables self))"
    using assms by (auto simp: names_are_words_def list_all_iff)
  then show "by_legacy_alias self r = None"
    by (simp add: by_legacy_alias_def find_variable_def find_none)
qed

text \<open>
  A word \<open>nm\<close>, a separator \<open>c\<close> that is neither a word character nor white space nor
  \<open>#\<close>, and any text: the stripped reference is no word and does not start with \<open>#\<close>.
\<close>

lemma separated_reference:
  assumes "word nm" and "\<not> ident_char c" and "\<not> py_isspace c" and "c \<noteq> CHR ''#''"
  shows "\<not> word (py_strip (nm @ c # rest))"
    and "py_strip (nm @ c # rest) \<noteq> []" and "hd (py_strip (nm @ c # rest)) \<noteq> CHR ''#''"
proof -
  let ?s = "nm @ c # rest"
  have "c \<in> set (py_strip ?s)" using assms(3) by (intro in_py_strip) auto
  then show "\<not> word (py_strip ?s)" using assms(2) by (rule not_word)
  have first: "\<not> py_isspace (hd ?s) \<and> hd ?s \<noteq> CHR ''#''"
  proof (cases nm)
    case Nil
    then show ?thesis using assms(3,4) by simp
  next
    case (Cons d ds)
    then have "ident_char d" using assms(1) by (simp add: word_def)
    then show ?thesis using Cons ident_char_not_space ident_char_not_special(5) by auto
  qed
  from hd_py_strip [of ?s] first
  show "py_strip ?s \<noteq> []" and "hd (py_strip ?s) \<noteq> CHR ''#''" by simp_all
qed

lemma unresolved_separated:
  assumes "names_are_words w self" and "word nm"
    and "\<not> ident_char c" and "\<not> py_isspace c" and "c \<noteq> CHR ''#''"
  shows "get_variable_by_reference w self (nm @ c # rest) = None"
  using no_word_no_name [OF assms(1) separated_reference(1) [OF assms(2-5)], of rest]
    separated_reference(3) [OF assms(2-5), of rest]
  by (simp add: get_variable_by_reference_def by_legacy_number_def by_legacy_full_id_def)

lemma key_is_word:
  assumes "names_are_words w self" and "map_of (hs_variables self) k = Some var"
  shows "word k"
proof -
  have "k \<in> set (map fst (hs_variables self))"
    using assms(2) by (force dest: map_of_SomeD)
  then show ?thesis using assms(1) by (auto simp: names_are_words_def list_all_iff)
qed

lemma word_strip: "word s \<Longrightarrow> py_strip s = s"
proof (cases s)
  case Nil
  then show ?thesis by (simp add: py_strip_def)
next
  case (Cons c cs)
  assume "word s"
  then have "ident_char (hd s)" "ident_char (last s)"
    using Cons by (auto simp: word_def list_all_iff)
  then show ?thesis using Cons ident_char_not_space by (intro py_strip_id) auto
qed

lemma legacy_reference_shape:
  assumes "word nm"
  shows "py_strip (CHR ''#'' # str_int i @ CHR ''.'' # nm) = CHR ''#'' # str_int i @ CHR ''.'' # nm"
    and "py_strip (CHR ''#'' # str_int i) = CHR ''#'' # str_int i"
    and "takeWhile (\<lambda>c. c \<noteq> CHR ''.'') (str_int i @ CHR ''.'' # nm) = str_int i"
proof -
  have last: "\<not> py_isspace (last (CHR ''#'' # str_int i @ CHR ''.'' # nm))"
  proof (cases nm rule: rev_cases)
    case Nil
    then show ?thesis using special_not_space by simp
  next
    case (snoc ds d)
    then have "ident_char d" using assms by (simp add: word_def)
    then show ?thesis using snoc ident_char_not_space by simp
  qed
  show "py_strip (CHR ''#'' # str_int i @ CHR ''.'' # nm) = CHR ''#'' # str_int i @ CHR ''.'' # nm"
    using last special_not_space by (intro py_strip_id) simp_all
  show "py_strip (CHR ''#'' # str_int i) = CHR ''#'' # str_int i"
    using str_int_props(1,3) [of i] special_not_space by (intro py_strip_id) simp_all
  show "takeWhile (\<lambda>c. c \<noteq> CHR ''.'') (str_int i @ CHR ''.'' # nm) = str_int i"
    using str_int_props(4) [of i] by (subst takeWhile_append2) auto
qed

lemma dotted_shape:
  assumes "word nm"
  shows "py_strip (str_int i @ CHR ''.'' # nm) = str_int i @ CHR ''.'' # nm"
proof -
  have last: "\<not> py_isspace (last (str_int i @ CHR ''.'' # nm))"
  proof (cases nm rule: rev_cases)
    case Nil
    then show ?thesis using special_not_space by simp
  next
    case (snoc ds d)
    then have "ident_char d" using assms by (simp add: word_def)
    then show ?thesis using snoc ident_char_not_space by simp
  qed
  have "hd (str_int i @ CHR ''.'' # nm) = hd (str_int i)"
    using str_int_props(1) [of i] by simp
  then show ?thesis
    using last str_int_props(1,2) [of i] by (intro py_strip_id) simp_all
qed

subsection \<open>The legacy ids of created variables\<close>

text \<open>
  A new hybrid solution has fresh legacy ids, and \<open>create_variable\<close> keeps them fresh;
  so the variables of a solution built by \<open>create_variable\<close> have different legacy ids.
\<close>

lemma dict_set_values:
  "(a, b) \<in> set (dict_set d k x) \<Longrightarrow> b = x \<or> (a, b) \<in> set d"
  by (induction d k x rule: dict_set.induct) (auto split: if_splits)

lemma dict_set_distinct:
  assumes "distinct (map f (map snd d))" and "\<forall>(a, b) \<in> set d. f b \<noteq> f x"
  shows "distinct (map f (map snd (dict_set d k x)))"
  using assms
proof (induction d k x rule: dict_set.induct)
  case (1 k v)
  then show ?case by simp
next
  case (2 k' v' d k v)
  show ?case
  proof (cases "k' = k")
    case True
    with 2 show ?thesis by force
  next
    case False
    have "f v' \<noteq> f b" if "(a, b) \<in> set (dict_set d k v)" for a b
      using dict_set_values [OF that] 2(2,3) by force
    moreover have "distinct (map f (map snd (dict_set d k v)))"
      using 2 False by auto
    ultimately show ?thesis using False by force
  qed
qed

lemma new_solution_ids_fresh: "legacy_ids_fresh (fst (new_HybridSolution g nm))"
  by (simp add: legacy_ids_fresh_def new_HybridSolution_def new_V2Solution_def Let_def
      split: prod.splits)

lemma create_variable_ids_fresh:
  assumes "legacy_ids_fresh self"
  shows "legacy_ids_fresh (fst (snd (hybrid_create_variable g self nm v t als)))"
proof -
  define x where "x = fst (hybrid_create_variable g self nm v t als)"
  have self': "fst (snd (hybrid_create_variable g self nm v t als))
      = self\<lparr>hs_variables := dict_set (hs_variables self) nm x,
             next_variable_id := next_variable_id self + 1\<rparr>"
    and id: "variable_id x = next_variable_id self"
    by (simp_all add: x_def hybrid_create_variable_def Let_def split: prod.splits)
  have below: "list_all (\<lambda>v. variable_id v < next_variable_id self) (map snd (hs_variables self))"
    and dist: "distinct (map (\<lambda>v. variable_id v) (map snd (hs_variables self)))"
    using assms by (simp_all add: legacy_ids_fresh_def)
  have new: "\<forall>(a, b) \<in> set (hs_variables self). variable_id b \<noteq> variable_id x"
    using below id by (auto simp: list_all_iff)
  have d: "distinct (map (\<lambda>v. variable_id v) (map snd (dict_set (hs_variables self) nm x)))"
    using dist new by (rule dict_set_distinct)
  have b: "list_all (\<lambda>v. variable_id v < next_variable_id self + 1)
             (map snd (dict_set (hs_variables self) nm x))"
  proof -
    have "variable_id b < next_variable_id self + 1"
      if "(a, b) \<in> set (dict_set (hs_variables self) nm x)" for a b
      using dict_set_values [OF that] below id by (force simp: list_all_iff)
    then show ?thesis by (auto simp: list_all_iff)
  qed
  show ?thesis using d b by (simp add: self' legacy_ids_fresh_def)
qed

text \<open>
  The variable \<open>create_variable\<close> returns is stored under its name, and stays there
  until \<open>create_variable\<close> is called for that name again.
\<close>

lemma created_variable_is_stored:
  "map_of (hs_variables (fst (snd (hybrid_create_variable g self nm v t als)))) nm
     = Some (fst (hybrid_create_variable g self nm v t als))"
  by (simp add: hybrid_create_variable_def Let_def map_of_dict_set split: prod.splits)

lemma other_variable_stays_stored:
  "nm' \<noteq> nm \<Longrightarrow>
   map_of (hs_variables (fst (snd (hybrid_create_variable g self nm v t als)))) nm'
     = map_of (hs_variables self) nm'"
  by (simp add: hybrid_create_variable_def Let_def map_of_dict_set split: prod.splits)

subsection \<open>The example solution\<close>

lemma box_eq:
  "hybrid_box =
     \<lparr>hs_name = ''box'', v2_solution = 0,
      hs_variables =
        [(''length'', \<lparr>hv_name = ''length'', hv_solution_name = ''box'', variable_id = 1,
            var_type = CONTROLLABLE, hv_aliases = [''L'', ''len''], v2_variable = 2\<rparr>),
         (''width'', \<lparr>hv_name = ''width'', hv_solution_name = ''box'', variable_id = 2,
            var_type = CONTROLLABLE, hv_aliases = [''W'', ''wid''], v2_variable = 4\<rparr>)],
      next_variable_id = 3\<rparr>"
  "box_width = \<lparr>hv_name = ''width'', hv_solution_name = ''box'', variable_id = 2,
            var_type = CONTROLLABLE, hv_aliases = [''W'', ''wid''], v2_variable = 4\<rparr>"
  "sol_heap box_world 0 =
     \<lparr>sol_name = ''box'', variables = [(''length'', 1), (''width'', 3)],
      aliases = [(''L'', ''length''), (''len'', ''length''), (''W'', ''width''), (''wid'', ''width'')]\<rparr>"
  by (simp_all add: hybrid_box_def box_width_def box_world_def system_box2_def system_box1_def
      hybrid_defs store_defs is_valid_alias_def)

lemma box_again_eq:
  "hybrid_box_again =
     \<lparr>hs_name = ''box'', v2_solution = 0,
      hs_variables =
        [(''length'', \<lparr>hv_name = ''length'', hv_solution_name = ''box'', variable_id = 3,
            var_type = CONTROLLABLE, hv_aliases = [], v2_variable = 6\<rparr>),
         (''width'', \<lparr>hv_name = ''width'', hv_solution_name = ''box'', variable_id = 2,
            var_type = CONTROLLABLE, hv_aliases = [''W'', ''wid''], v2_variable = 4\<rparr>)],
      next_variable_id = 4\<rparr>"
  "box_length = \<lparr>hv_name = ''length'', hv_solution_name = ''box'', variable_id = 1,
            var_type = CONTROLLABLE, hv_aliases = [''L'', ''len''], v2_variable = 2\<rparr>"
  "sol_heap box_world_again 0 =
     \<lparr>sol_name = ''box'', variables = [(''length'', 5), (''width'', 3)],
      aliases = [(''L'', ''length''), (''len'', ''length''), (''W'', ''width''), (''wid'', ''width'')]\<rparr>"
  by (simp_all add: hybrid_box_again_def box_length_def box_world_again_def system_box3_def
      hybrid_box_def system_box2_def system_box1_def
      hybrid_defs store_defs is_valid_alias_def)

subsection \<open>The round trip\<close>

text \<open>
  C3, as the code has it. In a hybrid solution whose variable names and aliases are made of
  letters, digits and underscores and whose legacy ids are pairwise different, the resolver
  \<open>get_variable_by_reference\<close> returns a variable the solution holds under its name (the
  last one \<open>create_variable\<close> made for that name) for its legacy reference \<open>#id.name\<close>,
  for its legacy id \<open>#id\<close> and for its bare name. It has no branch for the write id
  \<open>name@solution\<close> or the read id \<open>name.solution\<close>: for both it returns \<open>None\<close>.
\<close>

theorem legacy_reference_resolves:
  assumes "map_of (hs_variables self) (hv_name var) = Some var"
    and "distinct (map (\<lambda>v. variable_id v) (map snd (hs_variables self)))"
    and "names_are_words w self"
  shows "get_variable_by_reference w self (legacy_full_id var) = Some var
         \<and> get_variable_by_reference w self (legacy_id var) = Some var
         \<and> get_variable_by_reference w self (hv_name var) = Some var
         \<and> get_variable_by_reference w self (new_write_id var) = None
         \<and> get_variable_by_reference w self (new_read_id var) = None"
proof -
  let ?i = "variable_id var" and ?nm = "hv_name var"
  have w: "word ?nm" using key_is_word [OF assms(3,1)] .
  have found: "find_variable self (\<lambda>v. variable_id v = ?i) = Some var"
    using find_by_id [OF assms(1,2)] .
  have hash: "\<not> word (CHR ''#'' # s)" for s
    using not_word [of "CHR ''#''" "CHR ''#'' # s"] ident_char_not_special(5) by simp
  have full: "get_variable_by_reference w self (legacy_full_id var) = Some var"
  proof -
    let ?r = "CHR ''#'' # str_int ?i @ CHR ''.'' # ?nm"
    have no_number: "py_int (str_int ?i @ CHR ''.'' # ?nm) = None"
    proof (rule py_int_with_dot)
      have t: "py_strip (str_int ?i @ CHR ''.'' # ?nm) = str_int ?i @ CHR ''.'' # ?nm"
        using dotted_shape [OF w] .
      show "CHR ''.'' \<in> set (tl (py_strip (str_int ?i @ CHR ''.'' # ?nm)))
           \<or> (CHR ''.'' \<in> set (py_strip (str_int ?i @ CHR ''.'' # ?nm))
               \<and> hd (py_strip (str_int ?i @ CHR ''.'' # ?nm)) \<noteq> CHR ''-''
               \<and> hd (py_strip (str_int ?i @ CHR ''.'' # ?nm)) \<noteq> CHR ''+'')"
        unfolding t using str_int_props(1) [of ?i] by (cases "str_int ?i") auto
    qed
    show ?thesis
      using no_word_no_name(1) [OF assms(3) hash] found no_number
      by (simp add: get_variable_by_reference_def legacy_full_id_def legacy_reference_shape [OF w]
          by_legacy_number_def by_legacy_full_id_def py_int_str_int Let_def)
  qed
  have short: "get_variable_by_reference w self (legacy_id var) = Some var"
    using no_word_no_name(1) [OF assms(3) hash] found
    by (simp add: get_variable_by_reference_def legacy_id_def legacy_reference_shape [OF w]
        by_legacy_number_def py_int_str_int Let_def)
  have by_name: "get_variable_by_reference w self ?nm = Some var"
    using assms(1) by (simp add: get_variable_by_reference_def word_strip [OF w])
  have by_write_id: "get_variable_by_reference w self (new_write_id var) = None"
    using unresolved_separated [OF assms(3) w ident_char_not_special(2) special_not_space(3)]
    by (simp add: new_write_id_def)
  have by_read_id: "get_variable_by_reference w self (new_read_id var) = None"
    using unresolved_separated [OF assms(3) w ident_char_not_special(3) special_not_space(2)]
    by (simp add: new_read_id_def)
  from full short by_name by_write_id by_read_id show ?thesis by (intro conjI)
qed

theorem legacy_reference_resolves_witness:
  "get_variable_by_reference box_world hybrid_box ''#2.width'' = Some box_width
   \<and> get_variable_by_reference box_world hybrid_box ''#2'' = Some box_width
   \<and> get_variable_by_reference box_world hybrid_box ''width'' = Some box_width
   \<and> get_variable_by_reference box_world hybrid_box ''width@box'' = None
   \<and> get_variable_by_reference box_world hybrid_box ''width.box'' = None"
proof -
  have stored: "map_of (hs_variables hybrid_box) (hv_name box_width) = Some box_width"
    by (simp add: box_eq)
  have ids: "distinct (map (\<lambda>v. variable_id v) (map snd (hs_variables hybrid_box)))"
    by (simp add: box_eq)
  have words: "names_are_words box_world hybrid_box"
    by (simp add: names_are_words_def word_def box_eq char_defs)
  from legacy_reference_resolves [OF stored ids words] show ?thesis
    by (simp add: box_eq hybrid_defs str_int_def str_nat.simps digit_char_simps)
qed

text \<open>
  The claim fails for the write id and the read id: in the solution \<open>box\<close> the variable
  \<open>width\<close> has the write id \<open>width@box\<close> and the read id \<open>width.box\<close>, and the resolver
  finds nothing for either, while the legacy reference \<open>#2.width\<close> gives the variable. It
  also fails for a variable that was created and then replaced: after a second
  \<open>create_variable\<close> for \<open>length\<close> the resolver finds nothing for the legacy reference
  \<open>#1.length\<close> of the first one.
\<close>

theorem write_and_read_id_unresolved:
  "map_of (hs_variables hybrid_box) ''width'' = Some box_width
   \<and> new_write_id box_width = ''width@box'' \<and> new_read_id box_width = ''width.box''
   \<and> legacy_full_id box_width = ''#2.width''
   \<and> get_variable_by_reference box_world hybrid_box ''width@box'' = None
   \<and> get_variable_by_reference box_world hybrid_box ''width.box'' = None
   \<and> get_variable_by_reference box_world hybrid_box ''#2.width'' = Some box_width
   \<and> map_of (hs_variables hybrid_box) ''length'' = Some box_length
   \<and> legacy_full_id box_length = ''#1.length'' \<and> legacy_id box_length = ''#1''
   \<and> get_variable_by_reference box_world_again hybrid_box_again ''#1.length'' = None
   \<and> get_variable_by_reference box_world_again hybrid_box_again ''#1'' = None
   \<and> get_variable_by_reference box_world_again hybrid_box_again ''length'' \<noteq> Some box_length"
proof -
  have a: "map_of (hs_variables hybrid_box) ''width'' = Some box_width
   \<and> new_write_id box_width = ''width@box'' \<and> new_read_id box_width = ''width.box''
   \<and> legacy_full_id box_width = ''#2.width''
   \<and> get_variable_by_reference box_world hybrid_box ''width@box'' = None
   \<and> get_variable_by_reference box_world hybrid_box ''width.box'' = None
   \<and> get_variable_by_reference box_world hybrid_box ''#2.width'' = Some box_width"
    by (simp add: box_eq hybrid_defs get_variable_def dict_has_def py_strip_def py_int_def
        nat_of_digits_def digit_value_def str_int_def str_nat.simps digit_char_simps char_defs)
  have b: "map_of (hs_variables hybrid_box) ''length'' = Some box_length"
    by (simp add: box_eq box_again_eq)
  have c: "legacy_full_id box_length = ''#1.length'' \<and> legacy_id box_length = ''#1''
   \<and> get_variable_by_reference box_world_again hybrid_box_again ''#1.length'' = None
   \<and> get_variable_by_reference box_world_again hybrid_box_again ''#1'' = None
   \<and> get_variable_by_reference box_world_again hybrid_box_again ''length'' \<noteq> Some box_length"
    by (simp add: box_again_eq hybrid_defs get_variable_def dict_has_def py_strip_def py_int_def
        nat_of_digits_def digit_value_def str_int_def str_nat.simps digit_char_simps char_defs)
  from a b c show ?thesis by simp
qed

end
